theory Spec2Isabelle
  imports Main
begin

section \<open>Python values and string operations used by \<open>app.py\<close>\<close>

text \<open>
  The handlers of \<open>app.py\<close> move JSON documents between three external services.  A JSON
  document as \<open>r.json()\<close> and \<open>json.loads\<close> deliver it is a value of \<open>json\<close>: an
  object is the list of the items of the Python dict, in insertion order (keys distinct).
  Numbers are integers; floating-point numbers are outside the model.  A Python \<open>str\<close> is a
  \<open>string\<close> whose characters are the code points below 256.
\<close>

datatype json =
    JNull
  | JBool bool
  | JInt int
  | JStr string
  | JList "json list"
  | JObj "(string \<times> json) list"

text \<open>Python truthiness (\<open>bool(x)\<close>), as \<open>or\<close>, \<open>and\<close>, \<open>if\<close> and \<open>not\<close> use it.\<close>

fun py_truthy :: "json \<Rightarrow> bool" where
  "py_truthy JNull = False"
| "py_truthy (JBool b) = b"
| "py_truthy (JInt i) = (i \<noteq> 0)"
| "py_truthy (JStr s) = (s \<noteq> [])"
| "py_truthy (JList xs) = (xs \<noteq> [])"
| "py_truthy (JObj kvs) = (kvs \<noteq> [])"

text \<open>\<open>a or b\<close>: the first operand when it is truthy, the second otherwise.\<close>

definition py_or :: "json \<Rightarrow> json \<Rightarrow> json" where
  "py_or a b = (if py_truthy a then a else b)"

text \<open>\<open>d.get(k)\<close> and \<open>d.get(k, default)\<close> on a dict, and \<open>d[k] = v\<close>.\<close>

definition dict_get :: "(string \<times> json) list \<Rightarrow> string \<Rightarrow> json" where
  "dict_get d k = (case map_of d k of None \<Rightarrow> JNull | Some v \<Rightarrow> v)"

definition dict_get_default :: "(string \<times> json) list \<Rightarrow> string \<Rightarrow> json \<Rightarrow> json" where
  "dict_get_default d k dflt = (case map_of d k of None \<Rightarrow> dflt | Some v \<Rightarrow> v)"

fun dict_set :: "string \<Rightarrow> json \<Rightarrow> (string \<times> json) list \<Rightarrow> (string \<times> json) list" where
  "dict_set k v [] = [(k, v)]"
| "dict_set k v (p # ps) = (if fst p = k then (k, v) # ps else p # dict_set k v ps)"

text \<open>\<open>str.lower()\<close> on code points below 256: the ASCII capitals and the Latin-1
  capitals (all of U+00C0 .. U+00DE but the multiplication sign) move up by 32.\<close>

definition py_lower_char :: "char \<Rightarrow> char" where
  "py_lower_char c =
     (let n = (of_char c :: nat)
      in if (65 \<le> n \<and> n \<le> 90) \<or> (192 \<le> n \<and> n \<le> 222 \<and> n \<noteq> 215)
         then char_of (n + 32) else c)"

definition py_lower :: "string \<Rightarrow> string" where
  "py_lower s = map py_lower_char s"

text \<open>\<open>str.strip()\<close> removes the characters for which \<open>str.isspace\<close> holds, at both ends;
  \<open>s.rstrip(cs)\<close> removes trailing characters of \<open>cs\<close>.\<close>

definition py_isspace :: "char \<Rightarrow> bool" where
  "py_isspace c =
     (let n = (of_char c :: nat)
      in (9 \<le> n \<and> n \<le> 13) \<or> (28 \<le> n \<and> n \<le> 32) \<or> n = 133 \<or> n = 160)"

definition py_strip :: "string \<Rightarrow> string" where
  "py_strip s = rev (dropWhile py_isspace (rev (dropWhile py_isspace s)))"

definition py_rstrip :: "char list \<Rightarrow> string \<Rightarrow> string" where
  "py_rstrip cs s = rev (dropWhile (\<lambda>c. c \<in> set cs) (rev s))"

definition py_endswith :: "string \<Rightarrow> string \<Rightarrow> bool" where
  "py_endswith s suf = (length suf \<le> length s \<and> drop (length s - length suf) s = suf)"

text \<open>\<open>str(n)\<close> for an \<open>int\<close>.\<close>

fun str_of_nat :: "nat \<Rightarrow> string" where
  "str_of_nat n =
     (if n < 10 then [char_of (48 + n)]
      else str_of_nat (n div 10) @ [char_of (48 + n mod 10)])"

definition str_of_int :: "int \<Rightarrow> string" where
  "str_of_int i = (if i < 0 then CHR ''-'' # str_of_nat (nat (- i)) else str_of_nat (nat i))"

text \<open>
  \<open>repr\<close> of a \<open>str\<close>: double quotes when the string holds a single quote and no
  double quote, single quotes otherwise; the backslash and the chosen quote are escaped,
  tab, newline and carriage return are written as a backslash and \<open>t\<close>, \<open>n\<close>, \<open>r\<close>,
  and every other code point that is not printable (below 32, from 127 to 160, and 173)
  is written as a backslash, \<open>x\<close> and two hexadecimal digits.
\<close>

definition hex_digit :: "nat \<Rightarrow> char" where
  "hex_digit n = (if n < 10 then char_of (48 + n) else char_of (87 + n))"

definition py_repr_char :: "char \<Rightarrow> char \<Rightarrow> string" where
  "py_repr_char q c =
     (let n = (of_char c :: nat)
      in if c = q \<or> n = 92 then [CHR 0x5C, c]
         else if n = 9 then [CHR 0x5C, CHR ''t'']
         else if n = 10 then [CHR 0x5C, CHR ''n'']
         else if n = 13 then [CHR 0x5C, CHR ''r'']
         else if n < 32 \<or> (127 \<le> n \<and> n \<le> 160) \<or> n = 173
           then [CHR 0x5C, CHR ''x'', hex_digit (n div 16), hex_digit (n mod 16)]
         else [c])"

definition py_repr_str :: "string \<Rightarrow> string" where
  "py_repr_str s =
     (let q = (if CHR 0x27 \<in> set s \<and> CHR 0x22 \<notin> set s then CHR 0x22 else CHR 0x27)
      in q # concat (map (py_repr_char q) s) @ [q])"

fun py_join :: "string \<Rightarrow> string list \<Rightarrow> string" where
  "py_join sep [] = []"
| "py_join sep [x] = x"
| "py_join sep (x # y # ys) = x @ sep @ py_join sep (y # ys)"

text \<open>\<open>repr(x)\<close> and \<open>str(x)\<close> of a JSON value; they differ on strings only.\<close>

fun py_repr :: "json \<Rightarrow> string" where
  "py_repr JNull = ''None''"
| "py_repr (JBool b) = (if b then ''True'' else ''False'')"
| "py_repr (JInt i) = str_of_int i"
| "py_repr (JStr s) = py_repr_str s"
| "py_repr (JList xs) = ''['' @ py_join '', '' (map py_repr xs) @ '']''"
| "py_repr (JObj kvs) =
     ''{'' @ py_join '', '' (map (\<lambda>kv. py_repr_str (fst kv) @ '': '' @ py_repr (snd kv)) kvs)
       @ ''}''"

fun py_str :: "json \<Rightarrow> string" where
  "py_str (JStr s) = s"
| "py_str v = py_repr v"

text \<open>The name of the type of a value, as the message of an \<open>AttributeError\<close> quotes
  it, and that message for a missing \<open>get\<close>.\<close>

fun py_type_name :: "json \<Rightarrow> string" where
  "py_type_name JNull = ''NoneType''"
| "py_type_name (JBool b) = ''bool''"
| "py_type_name (JInt i) = ''int''"
| "py_type_name (JStr s) = ''str''"
| "py_type_name (JList xs) = ''list''"
| "py_type_name (JObj kvs) = ''dict''"

definition no_attribute_get :: "json \<Rightarrow> string" where
  "no_attribute_get v =
     [CHR 0x27] @ py_type_name v @ [CHR 0x27] @ '' object has no attribute ''
       @ [CHR 0x27] @ ''get'' @ [CHR 0x27]"

text \<open>\<open>a or b\<close> on strings.\<close>

definition str_or :: "string \<Rightarrow> string \<Rightarrow> string" where
  "str_or a b = (if a \<noteq> [] then a else b)"

section \<open>Configuration store\<close>

definition DEFAULT_GUARD_URL :: string where
  "DEFAULT_GUARD_URL = ''https://api.xdr.trendmicro.com/beta/aiSecurity/guard''"

text \<open>The module-level dict \<open>_config\<close>; \<open>ConfigUpdate\<close> has the same ten fields with the
  same types, so one record serves for the stored settings and for the request body.\<close>

record config =
  ollama_base_url :: string
  ollama_model :: string
  v1_guard_api_key :: string
  v1_guard_url_base :: string
  v1_guard_enabled :: bool
  v1_guard_detailed :: bool
  enforce_side :: string
  v1fs_api_key :: string
  v1fs_region :: string
  v1fs_enabled :: bool

text \<open>The dict that \<open>get_config\<close> returns.\<close>

record config_view =
  cv_ollama_base_url :: string
  cv_ollama_model :: string
  cv_v1_guard_api_key_set :: bool
  cv_v1_guard_api_key_masked :: string
  cv_v1_guard_url_base :: string
  cv_v1_guard_enabled :: bool
  cv_v1_guard_detailed :: bool
  cv_enforce_side :: string
  cv_v1fs_api_key_set :: bool
  cv_v1fs_api_key_masked :: string
  cv_v1fs_region :: string
  cv_v1fs_enabled :: bool
  cv_v1fs_available :: bool

text \<open>
  \<^verbatim>\<open>
  def _mask_key(key: str) -> str:
      if not key or len(key) < 8:
          return "***"
      return key[:4] + "*" * (len(key) - 6) + key[-2:]
  \<close>
  With at least 8 characters the slice \<open>key[-2:]\<close> is the last two characters.
\<close>

definition mask_key :: "string \<Rightarrow> string" where
  "mask_key key =
     (if key = [] \<or> length key < 8 then ''***''
      else take 4 key @ replicate (length key - 6) (CHR ''*'') @ drop (length key - 2) key)"

text \<open>\<open>get_config\<close>; \<open>avail\<close> is the module constant \<open>V1FS_AVAILABLE\<close>, fixed when the
  module is imported.\<close>

definition get_config :: "bool \<Rightarrow> config \<Rightarrow> config_view" where
  "get_config avail c =
     \<lparr> cv_ollama_base_url = ollama_base_url c,
       cv_ollama_model = ollama_model c,
       cv_v1_guard_api_key_set = (v1_guard_api_key c \<noteq> []),
       cv_v1_guard_api_key_masked =
         (if v1_guard_api_key c \<noteq> [] then mask_key (v1_guard_api_key c) else []),
       cv_v1_guard_url_base = v1_guard_url_base c,
       cv_v1_guard_enabled = v1_guard_enabled c,
       cv_v1_guard_detailed = v1_guard_detailed c,
       cv_enforce_side = enforce_side c,
       cv_v1fs_api_key_set = (v1fs_api_key c \<noteq> []),
       cv_v1fs_api_key_masked =
         (if v1fs_api_key c \<noteq> [] then mask_key (v1fs_api_key c) else []),
       cv_v1fs_region = v1fs_region c,
       cv_v1fs_enabled = v1fs_enabled c,
       cv_v1fs_available = avail \<rparr>"

text \<open>
  \<open>update_config\<close> overwrites every key of \<open>_config\<close> from the request body and returns
  \<open>get_config()\<close>.  The model returns the new store; the response is \<open>get_config\<close> of it.
\<close>

definition normalize_base_url :: "string \<Rightarrow> string" where
  "normalize_base_url u =
     (let base_url = py_rstrip ''/'' (py_strip (str_or u []))
      in if py_endswith base_url ''/api''
         then py_rstrip ''/'' (take (length base_url - 4) base_url)
         else base_url)"

definition normalize_enforce_side :: "string \<Rightarrow> string" where
  "normalize_enforce_side e =
     (let s = py_lower (str_or e ''both'')
      in if s \<notin> set [''user'', ''assistant'', ''both''] then ''both'' else s)"

definition update_config :: "config \<Rightarrow> config \<Rightarrow> config" where
  "update_config body c =
     \<lparr> ollama_base_url = normalize_base_url (ollama_base_url body),
       ollama_model = py_strip (str_or (ollama_model body) []),
       v1_guard_api_key = py_strip (str_or (v1_guard_api_key body) []),
       v1_guard_url_base =
         py_rstrip ''/'' (py_strip (str_or (v1_guard_url_base body) DEFAULT_GUARD_URL)),
       v1_guard_enabled = v1_guard_enabled body,
       v1_guard_detailed = v1_guard_detailed body,
       enforce_side = normalize_enforce_side (enforce_side body),
       v1fs_api_key = py_strip (str_or (v1fs_api_key body) []),
       v1fs_region = py_strip (str_or (v1fs_region body) ''us-east-1''),
       v1fs_enabled = v1fs_enabled body \<rparr>"

text \<open>The initial value of \<open>_config\<close>.\<close>

definition initial_config :: config where
  "initial_config =
     \<lparr> ollama_base_url = [], ollama_model = [], v1_guard_api_key = [],
       v1_guard_url_base = DEFAULT_GUARD_URL, v1_guard_enabled = True,
       v1_guard_detailed = False, enforce_side = ''both'', v1fs_api_key = [],
       v1fs_region = ''us-east-1'', v1fs_enabled = True \<rparr>"

section \<open>The external services\<close>

text \<open>
  What one \<open>httpx\<close> request can come to, seen from the handler: the block
  \<open>r = await client.post(...); r.raise_for_status(); data = r.json()\<close> either
  delivers the parsed body or raises.  The handlers tell \<open>httpx.HTTPStatusError\<close> (with
  the status code and the text of the response), \<open>httpx.ConnectError\<close> and
  \<open>ValueError\<close> (the body is not JSON) apart; every other exception is \<open>OtherError\<close>.
  The exceptions carry \<open>str(e)\<close>.
\<close>

datatype http_outcome =
    Replied json
  | StatusError nat string
  | ConnectError string
  | ValueError string
  | OtherError string

text \<open>
  The two remote services are functions of the request sent to them: the Guard of the
  URL, the bearer key, the JSON payload and the \<open>detailedResponse\<close> parameter, the model
  server of the URL and the JSON payload.
\<close>

record services =
  guard_post :: "string \<Rightarrow> string \<Rightarrow> json \<Rightarrow> string \<Rightarrow> http_outcome"
  ollama_post :: "string \<Rightarrow> json \<Rightarrow> http_outcome"

section \<open>Content Guard\<close>

text \<open>The dict returned when the Guard could not be asked or did not answer.\<close>

definition guard_error :: "string \<Rightarrow> (string \<times> json) list" where
  "guard_error reason =
     [(''allowed'', JBool True), (''reason'', JStr reason), (''is_error'', JBool True)]"

text \<open>The dict returned when the Guard answered with an error status.\<close>

definition guard_status_error :: "nat \<Rightarrow> string \<Rightarrow> (string \<times> json) list" where
  "guard_status_error code body =
     [(''allowed'', JBool True),
      (''reason'', JStr (''Guard API error: '' @ str_of_nat code)),
      (''detail'', JStr body),
      (''is_error'', JBool True)]"

text \<open>
  \<open>_apply_guardrails\<close>.  The text is a JSON value: the user-side check passes a \<open>str\<close>,
  the assistant-side check passes whatever the model server put in \<open>content\<close>.  An
  answer that is not a JSON object makes \<open>result.get\<close> raise \<open>AttributeError\<close>, which
  the last \<open>except Exception\<close> clause catches like every other exception.
\<close>

definition apply_guardrails ::
  "services \<Rightarrow> json \<Rightarrow> string \<Rightarrow> string \<Rightarrow> bool \<Rightarrow> (string \<times> json) list" where
  "apply_guardrails sv text api_key guard_url detailed =
     (if api_key = [] \<or> guard_url = [] then guard_error ''Guard not configured''
      else
        let url = py_rstrip ''/'' guard_url;
            payload = JObj [(''guard'', text)];
            params = py_lower (py_str (JBool detailed))
        in case guard_post sv url api_key payload params of
             Replied result \<Rightarrow>
               (case result of
                  JObj d \<Rightarrow>
                    let decision =
                          py_lower (py_str
                            (py_or (py_or (py_or (dict_get d ''decision'') (dict_get d ''action''))
                                          (dict_get d ''recommendation''))
                                   (JStr ''allow'')))
                    in dict_set ''allowed'' (JBool (decision \<noteq> ''block''))
                         (dict_set ''is_malicious'' (JBool (decision = ''block'')) d)
                | _ \<Rightarrow> guard_error (no_attribute_get result))
           | StatusError code body \<Rightarrow> guard_status_error code body
           | ConnectError e \<Rightarrow> guard_error e
           | ValueError e \<Rightarrow> guard_error e
           | OtherError e \<Rightarrow> guard_error e)"

text \<open>\<open>guard_result.get("is_malicious", False)\<close> as a condition: the flag that blocks.\<close>

definition is_malicious :: "(string \<times> json) list \<Rightarrow> bool" where
  "is_malicious guard_result = py_truthy (dict_get_default guard_result ''is_malicious'' (JBool False))"

section \<open>Chat turn mediation\<close>

record chat_message =
  role :: string
  content :: string

text \<open>What a handler ends with when it does not return: an \<open>HTTPException\<close> with status
  and detail, or an exception that no clause catches (named by its class).\<close>

datatype failure =
    HTTPException nat string
  | Unhandled string

text \<open>The outbound calls of one request, in the order they are made.\<close>

datatype call =
    GuardCall json
  | OllamaCall string json

record chat_response =
  message :: json
  guard :: "(string \<times> json) list option"

definition USER_BLOCKED :: string where
  "USER_BLOCKED = ''[Blocked by AI Guard] Your prompt was flagged as unsafe.''"

definition ASSISTANT_BLOCKED :: string where
  "ASSISTANT_BLOCKED = ''[Blocked by AI Guard] The model response was flagged as unsafe.''"

definition assistant_msg :: "string \<Rightarrow> json" where
  "assistant_msg text = JObj [(''role'', JStr ''assistant''), (''content'', JStr text)]"

text \<open>\<open>next((m.content for m in reversed(req.messages) if m.role == "user"), "")\<close>\<close>

definition last_user :: "chat_message list \<Rightarrow> string" where
  "last_user msgs =
     (case filter (\<lambda>m. role m = ''user'') (rev msgs) of [] \<Rightarrow> [] | m # _ \<Rightarrow> content m)"

text \<open>
  The handler \<open>chat\<close> in three parts, in source order; each returns the outcome of the
  request and the calls made.  \<open>chat_reply\<close> is the part after the model server has
  answered with \<open>data\<close> (from \<open>assistant_message = ...\<close> to the final \<open>return\<close>), and
  \<open>assistant_text\<close> its first line,
  \<open>assistant_message = (data.get("message") or {}).get("content") or ""\<close>, where
  \<open>get\<close> raises \<open>AttributeError\<close> on anything but a dict.
\<close>

definition assistant_text :: "json \<Rightarrow> failure + json" where
  "assistant_text data =
     (case data of
        JObj d \<Rightarrow>
          (case py_or (dict_get d ''message'') (JObj []) of
             JObj m \<Rightarrow> Inr (py_or (dict_get m ''content'') (JStr []))
           | _ \<Rightarrow> Inl (Unhandled ''AttributeError''))
      | _ \<Rightarrow> Inl (Unhandled ''AttributeError''))"

definition chat_reply ::
  "config \<Rightarrow> services \<Rightarrow> (string \<times> json) list option \<Rightarrow> call list \<Rightarrow> json
     \<Rightarrow> (failure + chat_response) \<times> call list" where
  "chat_reply cfg sv guard_result calls data =
     (case assistant_text data of
        Inl e \<Rightarrow> (Inl e, calls)
      | Inr assistant_message \<Rightarrow>
          (case data of
             JObj d \<Rightarrow>
               if v1_guard_enabled cfg \<and> v1_guard_api_key cfg \<noteq> []
                  \<and> enforce_side cfg \<in> set [''assistant'', ''both'']
                  \<and> py_truthy assistant_message
               then
                 let guard_result' =
                       apply_guardrails sv assistant_message (v1_guard_api_key cfg)
                         (v1_guard_url_base cfg) (v1_guard_detailed cfg);
                     calls' = calls @ [GuardCall assistant_message];
                     d' = (if is_malicious guard_result'
                           then dict_set ''message'' (assistant_msg ASSISTANT_BLOCKED) d
                           else d)
                 in (Inr \<lparr> message = dict_get_default d' ''message'' (JObj []),
                           guard = Some guard_result' \<rparr>, calls')
               else (Inr \<lparr> message = dict_get_default d ''message'' (JObj []),
                           guard = guard_result \<rparr>, calls)
           | _ \<Rightarrow> (Inl (Unhandled ''AttributeError''), calls)))"

text \<open>The call of the model server (\<open># Call Ollama chat\<close>) and its \<open>except\<close> clauses.\<close>

definition ollama_payload :: "string \<Rightarrow> chat_message list \<Rightarrow> json" where
  "ollama_payload model msgs =
     JObj [(''model'', JStr model),
           (''messages'',
            JList (map (\<lambda>m. JObj [(''role'', JStr (role m)), (''content'', JStr (content m))])
                     msgs)),
           (''stream'', JBool False)]"

definition chat_ollama ::
  "config \<Rightarrow> services \<Rightarrow> chat_message list \<Rightarrow> (string \<times> json) list option \<Rightarrow> call list
     \<Rightarrow> (failure + chat_response) \<times> call list" where
  "chat_ollama cfg sv msgs guard_result calls =
     (let ollama_url = ollama_base_url cfg @ ''/api/chat'';
          payload = ollama_payload (ollama_model cfg) msgs;
          calls' = calls @ [OllamaCall ollama_url payload]
      in case ollama_post sv ollama_url payload of
           Replied data \<Rightarrow> chat_reply cfg sv guard_result calls' data
         | ConnectError e \<Rightarrow>
             (Inl (HTTPException 502 (''Cannot connect to Ollama at '' @ ollama_url @ '': '' @ e)),
              calls')
         | StatusError code body \<Rightarrow>
             (Inl (HTTPException code (''Ollama error: '' @ take 500 body)), calls')
         | ValueError e \<Rightarrow>
             (Inl (HTTPException 502 ''Ollama returned invalid JSON. Check configuration.''),
              calls')
         | OtherError e \<Rightarrow> (Inl (Unhandled e), calls'))"

definition chat ::
  "config \<Rightarrow> services \<Rightarrow> chat_message list \<Rightarrow> (failure + chat_response) \<times> call list" where
  "chat cfg sv msgs =
     (if ollama_base_url cfg = [] \<or> ollama_model cfg = []
      then (Inl (HTTPException 400 ''Configure Ollama URL and model in Settings first.''), [])
      else if msgs = [] then (Inl (HTTPException 400 ''messages is required''), [])
      else
        if v1_guard_enabled cfg \<and> v1_guard_api_key cfg \<noteq> []
           \<and> enforce_side cfg \<in> set [''user'', ''both''] \<and> last_user msgs \<noteq> []
        then
          let guard_result =
                apply_guardrails sv (JStr (last_user msgs)) (v1_guard_api_key cfg)
                  (v1_guard_url_base cfg) (v1_guard_detailed cfg);
              calls = [GuardCall (JStr (last_user msgs))]
          in if is_malicious guard_result
             then (Inr \<lparr> message = assistant_msg USER_BLOCKED, guard = Some guard_result \<rparr>, calls)
             else chat_ollama cfg sv msgs (Some guard_result) calls
        else chat_ollama cfg sv msgs None [])"

section \<open>File Scanner and file mediation\<close>

text \<open>
  The temporary directory is a map from paths to file contents.  The runtime around the
  file handlers: \<open>V1FS_AVAILABLE\<close> (whether \<open>amaas.grpc\<close> was imported),
  \<open>tempfile.NamedTemporaryFile(delete=False, suffix=...)\<close>, which creates an empty file
  and gives its path or raises \<open>OSError\<close> and creates nothing (\<open>None\<close>), the write of
  the bytes through \<open>tmp.write\<close> and the close at the end of the \<open>with\<close> block, which
  can raise \<open>OSError\<close> and leave part of the bytes in the file, and the SDK.
\<close>

type_synonym files = "string \<rightharpoonup> string"

datatype write_outcome =
    Written
  | WriteRaised string

text \<open>The three SDK calls and \<open>json.loads\<close> of \<open>_scan_file_v1fs\<close> together deliver the
  parsed result or raise (with \<open>str(e)\<close>).\<close>

datatype sdk_outcome =
    SdkResult json
  | SdkRaised string

record runtime =
  V1FS_AVAILABLE :: bool
  named_temporary_file :: "string \<Rightarrow> string option"
  tmp_write :: "string \<Rightarrow> string \<Rightarrow> write_outcome"
  amaas_scan :: "string \<Rightarrow> string \<Rightarrow> string \<Rightarrow> string option \<Rightarrow> sdk_outcome"

text \<open>An \<open>UploadFile\<close>: its \<open>filename\<close> (which may be \<open>None\<close>) and what
  \<open>await file.read()\<close> delivers (\<open>None\<close> when it raises).\<close>

record upload_file =
  filename :: "string option"
  read_result :: "string option"

record scan_response =
  sr_filename :: json
  sr_v1fs_result :: json
  sr_guard_result :: json
  sr_malicious :: bool

text \<open>\<open>_scan_file_v1fs\<close>; the SDK reads the file at \<open>file_path\<close>.\<close>

definition scan_file_v1fs :: "runtime \<Rightarrow> files \<Rightarrow> string \<Rightarrow> string \<Rightarrow> string \<Rightarrow> json" where
  "scan_file_v1fs rt fs file_path api_key region =
     (if \<not> V1FS_AVAILABLE rt then JObj [(''error'', JStr ''V1FS SDK not installed'')]
      else if api_key = [] \<or> region = []
        then JObj [(''error'', JStr ''V1FS not configured (missing API key or region)'')]
      else case amaas_scan rt region api_key file_path (fs file_path) of
             SdkResult result \<Rightarrow> result
           | SdkRaised e \<Rightarrow> JObj [(''error'', JStr (''V1FS scan failed: '' @ e))])"

text \<open>
  \<open>k in v\<close> for a string \<open>k\<close>: a key of a dict, an element of a list, a substring of a
  string; \<open>TypeError\<close> on \<open>None\<close>, a \<open>bool\<close> or an \<open>int\<close>.
\<close>

fun is_substring :: "string \<Rightarrow> string \<Rightarrow> bool" where
  "is_substring k [] = (k = [])"
| "is_substring k (c # s) = (take (length k) (c # s) = k \<or> is_substring k s)"

fun py_in :: "string \<Rightarrow> json \<Rightarrow> failure + bool" where
  "py_in k (JObj d) = Inr (k \<in> set (map fst d))"
| "py_in k (JList xs) = Inr (JStr k \<in> set xs)"
| "py_in k (JStr s) = Inr (is_substring k s)"
| "py_in k v = Inl (Unhandled ''TypeError'')"

text \<open>The condition \<open>k in v and v.get(k)\<close>: only a dict has \<open>get\<close>.\<close>

definition in_and_get :: "string \<Rightarrow> json \<Rightarrow> failure + bool" where
  "in_and_get k v =
     (case py_in k v of
        Inl e \<Rightarrow> Inl e
      | Inr False \<Rightarrow> Inr False
      | Inr True \<Rightarrow>
          (case v of
             JObj d \<Rightarrow> Inr (py_truthy (dict_get d k))
           | _ \<Rightarrow> Inl (Unhandled ''AttributeError'')))"

text \<open>
  The derivation of \<open>malicious\<close> in \<open>scan_uploaded_file\<close>:
  \<^verbatim>\<open>
  if "scanResult" in v1fs_result and v1fs_result.get("scanResult"):
      malicious = True
  elif "foundMalwares" in v1fs_result and v1fs_result.get("foundMalwares"):
      malicious = True
  \<close>
\<close>

definition upload_malicious :: "json \<Rightarrow> failure + bool" where
  "upload_malicious v1fs_result =
     (case in_and_get ''scanResult'' v1fs_result of
        Inl e \<Rightarrow> Inl e
      | Inr True \<Rightarrow> Inr True
      | Inr False \<Rightarrow> in_and_get ''foundMalwares'' v1fs_result)"

text \<open>
  The derivation in \<open>test_eicar\<close> and \<open>test_hello\<close>:
  \<^verbatim>\<open>
  if v1fs_result and ("scanResult" in v1fs_result and v1fs_result.get("scanResult")):
      malicious = True
  \<close>
\<close>

definition sample_malicious :: "json \<Rightarrow> failure + bool" where
  "sample_malicious v1fs_result =
     (if py_truthy v1fs_result then in_and_get ''scanResult'' v1fs_result else Inr False)"

text \<open>\<open>os.unlink\<close>\<close>

definition os_unlink :: "string \<Rightarrow> files \<Rightarrow> failure + files" where
  "os_unlink path fs =
     (if fs path = None then Inl (Unhandled ''FileNotFoundError'') else Inr (fs(path := None)))"

text \<open>\<open>try: body finally: os.unlink(tmp_path)\<close>: the outcome of the body unless the
  \<open>finally\<close> clause raises itself.\<close>

definition finally_unlink ::
  "string \<Rightarrow> files \<Rightarrow> failure + scan_response \<Rightarrow> (failure + scan_response) \<times> files" where
  "finally_unlink tmp_path fs outcome =
     (case os_unlink tmp_path fs of
        Inl e \<Rightarrow> (Inl e, fs)
      | Inr fs' \<Rightarrow> (outcome, fs'))"

definition filename_json :: "string option \<Rightarrow> json" where
  "filename_json f = (case f of None \<Rightarrow> JNull | Some n \<Rightarrow> JStr n)"

text \<open>The body of the \<open>try\<close> block of \<open>scan_uploaded_file\<close>.\<close>

definition scan_uploaded_body ::
  "config \<Rightarrow> runtime \<Rightarrow> upload_file \<Rightarrow> string \<Rightarrow> files \<Rightarrow> failure + scan_response" where
  "scan_uploaded_body cfg rt file tmp_path fs =
     (if v1fs_enabled cfg
      then
        let v1fs_result = scan_file_v1fs rt fs tmp_path (v1fs_api_key cfg) (v1fs_region cfg)
        in case upload_malicious v1fs_result of
             Inl e \<Rightarrow> Inl e
           | Inr malicious \<Rightarrow>
               Inr \<lparr> sr_filename = filename_json (filename file), sr_v1fs_result = v1fs_result,
                     sr_guard_result = JNull, sr_malicious = malicious \<rparr>
      else Inr \<lparr> sr_filename = filename_json (filename file), sr_v1fs_result = JNull,
                 sr_guard_result = JNull, sr_malicious = False \<rparr>)"

text \<open>
  \<open>scan_uploaded_file\<close>.  The \<open>with\<close> block that creates the file, reads the upload and
  writes the bytes comes before the \<open>try\<close>; the file is opened with \<open>delete=False\<close>, so
  leaving the \<open>with\<close> block closes it and removes nothing.
\<close>

definition scan_uploaded_file ::
  "config \<Rightarrow> runtime \<Rightarrow> upload_file \<Rightarrow> files \<Rightarrow> (failure + scan_response) \<times> files" where
  "scan_uploaded_file cfg rt file fs =
     (case named_temporary_file rt
             (''_'' @ (case filename file of None \<Rightarrow> ''None'' | Some n \<Rightarrow> n)) of
        None \<Rightarrow> (Inl (Unhandled ''OSError''), fs)
      | Some tmp_path \<Rightarrow>
          (case read_result file of
             None \<Rightarrow> (Inl (Unhandled ''Exception''), fs(tmp_path \<mapsto> []))
           | Some bytes \<Rightarrow>
               (case tmp_write rt tmp_path bytes of
                  WriteRaised partial \<Rightarrow> (Inl (Unhandled ''OSError''), fs(tmp_path \<mapsto> partial))
                | Written \<Rightarrow>
                    finally_unlink tmp_path (fs(tmp_path \<mapsto> bytes))
                      (scan_uploaded_body cfg rt file tmp_path (fs(tmp_path \<mapsto> bytes))))))"

text \<open>The two fixed-sample handlers share their shape: write the sample, scan it when the
  scanner is enabled, derive \<open>malicious\<close>, remove the file.\<close>

definition EICAR :: string where
  "EICAR = ''X5O!P%@AP[4'' @ [CHR 0x5C]
             @ ''PZX54(P^)7CC)7}$EICAR-STANDARD-ANTIVIRUS-TEST-FILE!$H+H*''"

definition HELLO :: string where
  "HELLO = ''Hello World! This is a benign test file.''"

definition sample_body ::
  "config \<Rightarrow> runtime \<Rightarrow> string \<Rightarrow> string \<Rightarrow> files \<Rightarrow> failure + scan_response" where
  "sample_body cfg rt name tmp_path fs =
     (let v1fs_result =
            (if v1fs_enabled cfg
             then scan_file_v1fs rt fs tmp_path (v1fs_api_key cfg) (v1fs_region cfg)
             else JNull)
      in case sample_malicious v1fs_result of
           Inl e \<Rightarrow> Inl e
         | Inr malicious \<Rightarrow>
             Inr \<lparr> sr_filename = JStr name, sr_v1fs_result = v1fs_result,
                   sr_guard_result = JNull, sr_malicious = malicious \<rparr>)"

definition sample_test ::
  "string \<Rightarrow> string \<Rightarrow> string \<Rightarrow> config \<Rightarrow> runtime \<Rightarrow> files
     \<Rightarrow> (failure + scan_response) \<times> files" where
  "sample_test suffix bytes name cfg rt fs =
     (case named_temporary_file rt suffix of
        None \<Rightarrow> (Inl (Unhandled ''OSError''), fs)
      | Some tmp_path \<Rightarrow>
          (case tmp_write rt tmp_path bytes of
             WriteRaised partial \<Rightarrow> (Inl (Unhandled ''OSError''), fs(tmp_path \<mapsto> partial))
           | Written \<Rightarrow>
               finally_unlink tmp_path (fs(tmp_path \<mapsto> bytes))
                 (sample_body cfg rt name tmp_path (fs(tmp_path \<mapsto> bytes)))))"

definition test_eicar :: "config \<Rightarrow> runtime \<Rightarrow> files \<Rightarrow> (failure + scan_response) \<times> files" where
  "test_eicar = sample_test ''_eicar.txt'' EICAR ''eicar.txt''"

definition test_hello :: "config \<Rightarrow> runtime \<Rightarrow> files \<Rightarrow> (failure + scan_response) \<times> files" where
  "test_hello = sample_test ''_hello.txt'' HELLO ''hello.txt''"

section \<open>Notions used to state the properties\<close>

text \<open>
  A Guard invocation fails when the key or the URL is missing, or when the request does
  not deliver a JSON object: an error status, a network error, a body that is not JSON,
  any other exception, or a body that is JSON but no object.
\<close>

definition guard_call_fails :: "services \<Rightarrow> json \<Rightarrow> string \<Rightarrow> string \<Rightarrow> bool \<Rightarrow> bool" where
  "guard_call_fails sv text api_key guard_url detailed =
     (api_key = [] \<or> guard_url = [] \<or>
      (case guard_post sv (py_rstrip ''/'' guard_url) api_key (JObj [(''guard'', text)])
              (py_lower (py_str (JBool detailed))) of
         Replied (JObj d) \<Rightarrow> False
       | _ \<Rightarrow> True))"

text \<open>
  The decision of a Guard answer in the words of the specification: the fields
  \<open>decision\<close>, \<open>action\<close>, \<open>recommendation\<close> are looked at in this order, the first one
  that yields a value (is present and truthy) is the decision, and \<open>allow\<close> is the default.
\<close>

definition spec_decision :: "(string \<times> json) list \<Rightarrow> json" where
  "spec_decision d =
     (if py_truthy (dict_get d ''decision'') then dict_get d ''decision''
      else if py_truthy (dict_get d ''action'') then dict_get d ''action''
      else if py_truthy (dict_get d ''recommendation'') then dict_get d ''recommendation''
      else JStr ''allow'')"

fun is_ollama_call :: "call \<Rightarrow> bool" where
  "is_ollama_call (OllamaCall url payload) = True"
| "is_ollama_call (GuardCall text) = False"

text \<open>The condition of the user-side check of \<open>chat\<close>.\<close>

definition user_checked :: "config \<Rightarrow> chat_message list \<Rightarrow> bool" where
  "user_checked cfg msgs =
     (v1_guard_enabled cfg \<and> v1_guard_api_key cfg \<noteq> []
      \<and> (enforce_side cfg = ''user'' \<or> enforce_side cfg = ''both'') \<and> last_user msgs \<noteq> [])"

text \<open>Concrete settings and services, for the instances below.\<close>

definition demo_config :: config where
  "demo_config = initial_config
     \<lparr> ollama_base_url := ''http://ollama:11434'', ollama_model := ''llama3.2'',
       v1_guard_api_key := ''secret123456'' \<rparr>"

definition hello_reply :: http_outcome where
  "hello_reply = Replied (JObj [(''message'', assistant_msg ''Hello!'')])"

definition flagging_services :: services where
  "flagging_services =
     \<lparr> guard_post = (\<lambda>url key payload params. Replied (JObj [(''decision'', JStr ''BLOCK'')])),
       ollama_post = (\<lambda>url payload. hello_reply) \<rparr>"

definition failing_guard_services :: services where
  "failing_guard_services =
     \<lparr> guard_post = (\<lambda>url key payload params. StatusError 503 ''Service Unavailable''),
       ollama_post = (\<lambda>url payload. hello_reply) \<rparr>"

definition action_services :: services where
  "action_services =
     \<lparr> guard_post = (\<lambda>url key payload params.
          Replied (JObj [(''decision'', JStr []), (''action'', JStr ''Block''),
                         (''recommendation'', JStr ''allow'')])),
       ollama_post = (\<lambda>url payload. hello_reply) \<rparr>"

text \<open>More Guards: one that cannot be reached, one that answers with a JSON list, and
  one that lets the prompt pass and flags the reply \<open>Hello!\<close> of the model server.\<close>

definition unreachable_guard_services :: services where
  "unreachable_guard_services =
     \<lparr> guard_post = (\<lambda>url key payload params. ConnectError ''All connection attempts failed''),
       ollama_post = (\<lambda>url payload. hello_reply) \<rparr>"

definition list_reply_services :: services where
  "list_reply_services =
     \<lparr> guard_post = (\<lambda>url key payload params. Replied (JList [])),
       ollama_post = (\<lambda>url payload. hello_reply) \<rparr>"

definition reply_flagging_services :: services where
  "reply_flagging_services =
     \<lparr> guard_post = (\<lambda>url key payload params.
          if payload = JObj [(''guard'', JStr ''Hello!'')]
          then Replied (JObj [(''decision'', JStr ''block'')])
          else Replied (JObj [(''decision'', JStr ''allow'')])),
       ollama_post = (\<lambda>url payload. hello_reply) \<rparr>"

text \<open>Concrete settings, runtimes and an upload for the file handlers: a scanner that
  reports a found malware with \<open>scanResult\<close> 0, and a temporary directory with no space
  left.\<close>

definition scan_config :: config where
  "scan_config = initial_config \<lparr> v1fs_api_key := ''secret123456'' \<rparr>"

definition found_only_result :: json where
  "found_only_result =
     JObj [(''scanResult'', JInt 0),
           (''foundMalwares'', JList [JObj [(''malwareName'', JStr ''Eicar_test_file'')]])]"

definition demo_runtime :: runtime where
  "demo_runtime =
     \<lparr> V1FS_AVAILABLE = True,
       named_temporary_file = (\<lambda>suffix. Some (''/tmp/tmpab12cd'' @ suffix)),
       tmp_write = (\<lambda>path bytes. Written),
       amaas_scan = (\<lambda>region api_key path bytes. SdkResult found_only_result) \<rparr>"

definition full_disk_runtime :: runtime where
  "full_disk_runtime = demo_runtime \<lparr> tmp_write := (\<lambda>path bytes. WriteRaised []) \<rparr>"

definition demo_upload :: upload_file where
  "demo_upload = \<lparr> filename = Some ''report.pdf'', read_result = Some ''%PDF-1.7'' \<rparr>"

section \<open>Properties of the configuration store\<close>

lemma mask_key_long:
  "8 \<le> length key \<Longrightarrow>
   mask_key key = take 4 key @ replicate (length key - 6) (CHR ''*'') @ drop (length key - 2) key"
  by (auto simp: mask_key_def)

lemma key_split:
  assumes "8 \<le> length key"
  shows "take 4 key @ take (length key - 6) (drop 4 key) @ drop (length key - 2) key = key"
proof -
  have d: "drop (length key - 2) key = drop (length key - 6) (drop 4 key)"
    using assms by simp
  have "take (length key - 6) (drop 4 key) @ drop (length key - 6) (drop 4 key) = drop 4 key"
    by (rule append_take_drop_id)
  then have "take (length key - 6) (drop 4 key) @ drop (length key - 2) key = drop 4 key"
    by (simp only: d)
  then show ?thesis by (simp only: append_take_drop_id)
qed

lemma mask_key_same_iff:
  assumes "8 \<le> length key"
  shows "mask_key key = key \<longleftrightarrow>
         (\<forall>c \<in> set (take (length key - 6) (drop 4 key)). c = CHR ''*'')"
proof -
  let ?mid = "take (length key - 6) (drop 4 key)"
  have len: "length ?mid = length key - 6" using assms by simp
  have "mask_key key = key \<longleftrightarrow>
        mask_key key = take 4 key @ ?mid @ drop (length key - 2) key"
    by (rule arg_cong [where f = "\<lambda>k. mask_key key = k", OF key_split [OF assms, symmetric]])
  also have "\<dots> \<longleftrightarrow> replicate (length key - 6) (CHR ''*'') = ?mid"
    by (simp only: mask_key_long [OF assms] same_append_eq append_same_eq)
  also have "\<dots> \<longleftrightarrow> (\<forall>c \<in> set ?mid. c = CHR ''*'')"
  proof
    assume "replicate (length key - 6) (CHR ''*'') = ?mid"
    then have "set ?mid \<subseteq> {CHR ''*''}"
      by (metis set_replicate_conv_if empty_subsetI subset_refl)
    then show "\<forall>c \<in> set ?mid. c = CHR ''*''" by blast
  next
    assume "\<forall>c \<in> set ?mid. c = CHR ''*''"
    then have "replicate (length ?mid) (CHR ''*'') = ?mid" by (rule replicate_length_same)
    then show "replicate (length key - 6) (CHR ''*'') = ?mid" using len by simp
  qed
  finally show ?thesis .
qed

lemma mask_key_short: "length key < 8 \<Longrightarrow> mask_key key = ''***''"
  by (simp add: mask_key_def)

lemma py_lower_Nil: "py_lower [] = []"
  by (simp add: py_lower_def)

lemma py_lower_both: "py_lower ''both'' = ''both''"
  by code_simp

text \<open>
  C10.  For every key of at least 8 characters the masked form has the length of the key:
  its first 4 characters, one filler character for each of the other characters but the
  last two, and its last 2 characters.  What \<open>get_config\<close> returns for a stored Guard or
  File Security key of at least 8 characters therefore shows the length of the key.
\<close>

theorem mask_key_preserves_length:
  assumes "8 \<le> length key"
  shows "length (mask_key key) = length key
       \<and> mask_key key = take 4 key @ replicate (length key - 6) (CHR ''*'') @ drop (length key - 2) key
       \<and> length (take 4 key) = 4 \<and> length (drop (length key - 2) key) = 2
       \<and> length (cv_v1_guard_api_key_masked (get_config avail (c\<lparr>v1_guard_api_key := key\<rparr>)))
           = length key
       \<and> length (cv_v1fs_api_key_masked (get_config avail (c\<lparr>v1fs_api_key := key\<rparr>)))
           = length key"
proof -
  have ne: "key \<noteq> []" using assms by auto
  have l: "length (mask_key key) = length key" using assms by (simp add: mask_key_long)
  show ?thesis using assms ne l by (simp add: get_config_def mask_key_long)
qed

text \<open>
  C10, at the key of the test suite: \<open>secret123456\<close> has 12 characters and so has its
  masked form.
\<close>

theorem mask_key_preserves_length_witness:
  "8 \<le> length ''secret123456''
   \<and> mask_key ''secret123456'' = ''secr******56''
   \<and> length (cv_v1_guard_api_key_masked
        (get_config True (initial_config\<lparr>v1_guard_api_key := ''secret123456''\<rparr>))) = 12"
  using mask_key_preserves_length [where key = "''secret123456''" and avail = True and c = initial_config]
  by (simp add: numeral_eq_Suc)

text \<open>
  C7, as the code has it.  \<open>get_config\<close> renders a stored key (Guard or File Security)
  as the empty string when no key is set, as the placeholder \<open>***\<close> when the key has
  fewer than 8 characters, and otherwise as its first 4 characters, \<open>*\<close> for each of the
  characters between, and its last 2 characters.  For a key of at least 8 characters the
  masked form differs from the key exactly when one of the characters between the first
  four and the last two is not the filler \<open>*\<close>.
\<close>

theorem get_config_masked_keys:
  "cv_v1_guard_api_key_masked (get_config avail (c\<lparr>v1_guard_api_key := key\<rparr>))
     = (if key = [] then [] else if length key < 8 then ''***''
        else take 4 key @ replicate (length key - 6) (CHR ''*'') @ drop (length key - 2) key)
   \<and> cv_v1fs_api_key_masked (get_config avail (c\<lparr>v1fs_api_key := key\<rparr>))
     = (if key = [] then [] else if length key < 8 then ''***''
        else take 4 key @ replicate (length key - 6) (CHR ''*'') @ drop (length key - 2) key)
   \<and> (8 \<le> length key \<longrightarrow>
        (cv_v1_guard_api_key_masked (get_config avail (c\<lparr>v1_guard_api_key := key\<rparr>)) \<noteq> key
           \<longleftrightarrow> (\<exists>ch \<in> set (take (length key - 6) (drop 4 key)). ch \<noteq> CHR ''*''))
      \<and> (cv_v1fs_api_key_masked (get_config avail (c\<lparr>v1fs_api_key := key\<rparr>)) \<noteq> key
           \<longleftrightarrow> (\<exists>ch \<in> set (take (length key - 6) (drop 4 key)). ch \<noteq> CHR ''*'')))"
proof -
  have a: "cv_v1_guard_api_key_masked (get_config avail (c\<lparr>v1_guard_api_key := key\<rparr>))
             = (if key = [] then [] else mask_key key)"
    by (simp add: get_config_def)
  have b: "cv_v1fs_api_key_masked (get_config avail (c\<lparr>v1fs_api_key := key\<rparr>))
             = (if key = [] then [] else mask_key key)"
    by (simp add: get_config_def)
  have m: "mask_key key = (if length key < 8 then ''***''
        else take 4 key @ replicate (length key - 6) (CHR ''*'') @ drop (length key - 2) key)"
    by (simp add: mask_key_def)
  have d: "8 \<le> length key \<Longrightarrow>
           (if key = [] then [] else mask_key key) \<noteq> key
             \<longleftrightarrow> (\<exists>ch \<in> set (take (length key - 6) (drop 4 key)). ch \<noteq> CHR ''*'')"
  proof -
    assume h: "8 \<le> length key"
    then have "key \<noteq> []" by auto
    then show ?thesis using mask_key_same_iff [OF h] by simp
  qed
  show ?thesis unfolding a b using m d by simp
qed

text \<open>
  C7, at the key of the test suite: the masked form of \<open>secret123456\<close> is
  \<open>secr******56\<close>, which is not the key.
\<close>

theorem get_config_masked_keys_witness:
  "cv_v1_guard_api_key_masked
     (get_config True (initial_config\<lparr>v1_guard_api_key := ''secret123456''\<rparr>)) = ''secr******56''
   \<and> cv_v1fs_api_key_masked
     (get_config True (initial_config\<lparr>v1fs_api_key := ''secret123456''\<rparr>)) = ''secr******56''
   \<and> cv_v1_guard_api_key_masked
     (get_config True (initial_config\<lparr>v1_guard_api_key := ''secret123456''\<rparr>)) \<noteq> ''secret123456''"
  using get_config_masked_keys [where avail = True and c = initial_config and key = "''secret123456''"]
  by (simp add: numeral_eq_Suc)

text \<open>
  C7 as stated fails: the key \<open>abcd**gh\<close> has 8 characters, \<open>update_config\<close> stores
  it unchanged, and \<open>get_config\<close> returns it in full, since the two characters that the
  mask replaces are the filler already.
\<close>

theorem masked_key_equals_key_counterexample:
  "v1_guard_api_key (update_config (initial_config\<lparr>v1_guard_api_key := ''abcd**gh''\<rparr>) initial_config)
     = ''abcd**gh''
   \<and> 8 \<le> length ''abcd**gh''
   \<and> cv_v1_guard_api_key_masked (get_config True
        (update_config (initial_config\<lparr>v1_guard_api_key := ''abcd**gh''\<rparr>) initial_config))
     = ''abcd**gh''"
  by code_simp

text \<open>
  C8, as the code has it.  \<open>update_config\<close> lowercases the enforcement side first: the
  stored value is the lowercased input when that is one of \<open>user\<close>, \<open>assistant\<close>,
  \<open>both\<close>, and \<open>both\<close> otherwise (also for an empty input); so after any update the
  stored value is one of the three.
\<close>

theorem update_config_enforce_side:
  "enforce_side (update_config body c)
     = (if py_lower (enforce_side body) \<in> {''user'', ''assistant'', ''both''}
        then py_lower (enforce_side body) else ''both'')
   \<and> enforce_side (update_config body c) \<in> {''user'', ''assistant'', ''both''}"
  by (simp add: update_config_def normalize_enforce_side_def Let_def str_or_def py_lower_both
        py_lower_Nil)

text \<open>
  C8 as stated fails: the input \<open>USER\<close> is outside the set of the three values, and the
  stored value is \<open>user\<close>, not \<open>both\<close>.
\<close>

theorem enforce_side_uppercase_counterexample:
  "''USER'' \<notin> {''user'', ''assistant'', ''both''}
   \<and> enforce_side (update_config (initial_config\<lparr>enforce_side := ''USER''\<rparr>) initial_config)
       = ''user''
   \<and> ''user'' \<noteq> ''both''"
  by code_simp

section \<open>Properties of the Content Guard\<close>

lemma map_of_dict_set: "map_of (dict_set k v d) k' = (if k' = k then Some v else map_of d k')"
  by (induction d) auto

lemma dict_get_set: "dict_get (dict_set k v d) k' = (if k' = k then v else dict_get d k')"
  by (simp add: dict_get_def map_of_dict_set)

lemma dict_get_default_set:
  "dict_get_default (dict_set k v d) k' x = (if k' = k then v else dict_get_default d k' x)"
  by (simp add: dict_get_default_def map_of_dict_set)

lemma is_malicious_guard_error: "\<not> is_malicious (guard_error r)"
  by (simp add: is_malicious_def guard_error_def dict_get_default_def)

lemma spec_decision_eq:
  "py_or (py_or (py_or (dict_get d ''decision'') (dict_get d ''action''))
                (dict_get d ''recommendation'')) (JStr ''allow'') = spec_decision d"
  by (simp add: py_or_def spec_decision_def)

lemma guard_fail_shape:
  assumes "guard_call_fails sv text api_key guard_url detailed"
  shows "(\<exists>r. apply_guardrails sv text api_key guard_url detailed = guard_error r)
       \<or> (\<exists>code body. apply_guardrails sv text api_key guard_url detailed
              = guard_status_error code body)"
proof (cases "api_key = [] \<or> guard_url = []")
  case True
  then have "apply_guardrails sv text api_key guard_url detailed
               = guard_error ''Guard not configured''"
    by (simp add: apply_guardrails_def)
  then show ?thesis by (intro disjI1 exI)
next
  case False
  let ?out = "guard_post sv (py_rstrip ''/'' guard_url) api_key (JObj [(''guard'', text)])
              (py_lower (py_str (JBool detailed)))"
  show ?thesis
  proof (cases ?out)
    case (Replied r)
    have nd: "case r of JObj d \<Rightarrow> False | _ \<Rightarrow> True"
      using assms False Replied by (simp add: guard_call_fails_def)
    have "apply_guardrails sv text api_key guard_url detailed
                 = guard_error (no_attribute_get r)"
      using nd False Replied by (cases r) (simp_all add: apply_guardrails_def Let_def)
    then show ?thesis by (intro disjI1 exI)
  next
    case (StatusError code body)
    then have "apply_guardrails sv text api_key guard_url detailed
                 = guard_status_error code body"
      using False by (simp add: apply_guardrails_def Let_def guard_status_error_def)
    then show ?thesis by (intro disjI2 exI)
  next
    case (ConnectError e)
    then have "apply_guardrails sv text api_key guard_url detailed = guard_error e"
      using False by (simp add: apply_guardrails_def Let_def)
    then show ?thesis by (intro disjI1 exI)
  next
    case (ValueError e)
    then have "apply_guardrails sv text api_key guard_url detailed = guard_error e"
      using False by (simp add: apply_guardrails_def Let_def)
    then show ?thesis by (intro disjI1 exI)
  next
    case (OtherError e)
    then have "apply_guardrails sv text api_key guard_url detailed = guard_error e"
      using False by (simp add: apply_guardrails_def Let_def)
    then show ?thesis by (intro disjI1 exI)
  qed
qed

lemma guard_error_facts:
  "dict_get (guard_error r) ''allowed'' = JBool True"
  "dict_get (guard_error r) ''is_error'' = JBool True"
  "map_of (guard_error r) ''reason'' = Some (JStr r)"
  "map_of (guard_error r) ''is_malicious'' = None"
  "\<not> is_malicious (guard_error r)"
  by (simp_all add: guard_error_def dict_get_def is_malicious_def dict_get_default_def)

lemma guard_status_error_facts:
  "dict_get (guard_status_error code body) ''allowed'' = JBool True"
  "dict_get (guard_status_error code body) ''is_error'' = JBool True"
  "map_of (guard_status_error code body) ''reason''
     = Some (JStr (''Guard API error: '' @ str_of_nat code))"
  "map_of (guard_status_error code body) ''is_malicious'' = None"
  "\<not> is_malicious (guard_status_error code body)"
  by (simp_all add: guard_status_error_def dict_get_def is_malicious_def dict_get_default_def)

text \<open>
  The verdict of a failing Guard invocation, in full.
\<close>

lemma guard_fail_verdict:
  assumes "guard_call_fails sv text api_key guard_url detailed"
  shows "apply_guardrails sv text api_key guard_url detailed
         = (if api_key = [] \<or> guard_url = []
            then [(''allowed'', JBool True), (''reason'', JStr ''Guard not configured''),
                  (''is_error'', JBool True)]
            else case guard_post sv (py_rstrip ''/'' guard_url) api_key
                        (JObj [(''guard'', text)]) (py_lower (py_str (JBool detailed))) of
                   StatusError code body \<Rightarrow>
                     [(''allowed'', JBool True),
                      (''reason'', JStr (''Guard API error: '' @ str_of_nat code)),
                      (''detail'', JStr body), (''is_error'', JBool True)]
                 | ConnectError e \<Rightarrow>
                     [(''allowed'', JBool True), (''reason'', JStr e), (''is_error'', JBool True)]
                 | ValueError e \<Rightarrow>
                     [(''allowed'', JBool True), (''reason'', JStr e), (''is_error'', JBool True)]
                 | OtherError e \<Rightarrow>
                     [(''allowed'', JBool True), (''reason'', JStr e), (''is_error'', JBool True)]
                 | Replied result \<Rightarrow>
                     [(''allowed'', JBool True), (''reason'', JStr (no_attribute_get result)),
                      (''is_error'', JBool True)])"
proof (cases "api_key = [] \<or> guard_url = []")
  case True
  then show ?thesis by (simp add: apply_guardrails_def guard_error_def)
next
  case False
  let ?out = "guard_post sv (py_rstrip ''/'' guard_url) api_key (JObj [(''guard'', text)])
              (py_lower (py_str (JBool detailed)))"
  show ?thesis
  proof (cases ?out)
    case (Replied r)
    have nd: "case r of JObj d \<Rightarrow> False | _ \<Rightarrow> True"
      using assms False Replied by (simp add: guard_call_fails_def)
    show ?thesis
      using nd False Replied
      by (cases r) (simp_all add: apply_guardrails_def Let_def guard_error_def)
  next
    case (StatusError code body)
    then show ?thesis using False
      by (simp add: apply_guardrails_def Let_def guard_status_error_def)
  next
    case (ConnectError e)
    then show ?thesis using False by (simp add: apply_guardrails_def Let_def guard_error_def)
  next
    case (ValueError e)
    then show ?thesis using False by (simp add: apply_guardrails_def Let_def guard_error_def)
  next
    case (OtherError e)
    then show ?thesis using False by (simp add: apply_guardrails_def Let_def guard_error_def)
  qed
qed

text \<open>
  C2.  A Guard invocation that fails (no key, no URL, an error status, or any exception
  during the call) returns a dict: \<open>apply_guardrails\<close> is a total function with no
  failure in its result type.  The dict has \<open>allowed\<close> true, \<open>is_error\<close> true and a
  \<open>reason\<close>; it has no \<open>is_malicious\<close> entry, so the flag that the chat handler reads
  is false and the failure blocks nothing.  The reason is the one of the failure:
  \<open>Guard not configured\<close> when the key or the URL is missing; \<open>Guard API error: \<close>
  and the status code, with the text of the response as \<open>detail\<close>, on an error status;
  \<open>str(e)\<close> for a network error, a body that is not JSON and any other exception; and
  the message of the \<open>AttributeError\<close> when the body is JSON but no object.
\<close>

theorem guard_failure_fails_open:
  assumes "guard_call_fails sv text api_key guard_url detailed"
  shows "dict_get (apply_guardrails sv text api_key guard_url detailed) ''allowed'' = JBool True
       \<and> dict_get (apply_guardrails sv text api_key guard_url detailed) ''is_error'' = JBool True
       \<and> (\<exists>reason. map_of (apply_guardrails sv text api_key guard_url detailed) ''reason''
                      = Some (JStr reason))
       \<and> map_of (apply_guardrails sv text api_key guard_url detailed) ''is_malicious'' = None
       \<and> \<not> is_malicious (apply_guardrails sv text api_key guard_url detailed)
       \<and> apply_guardrails sv text api_key guard_url detailed
         = (if api_key = [] \<or> guard_url = []
            then [(''allowed'', JBool True), (''reason'', JStr ''Guard not configured''),
                  (''is_error'', JBool True)]
            else case guard_post sv (py_rstrip ''/'' guard_url) api_key
                        (JObj [(''guard'', text)]) (py_lower (py_str (JBool detailed))) of
                   StatusError code body \<Rightarrow>
                     [(''allowed'', JBool True),
                      (''reason'', JStr (''Guard API error: '' @ str_of_nat code)),
                      (''detail'', JStr body), (''is_error'', JBool True)]
                 | ConnectError e \<Rightarrow>
                     [(''allowed'', JBool True), (''reason'', JStr e), (''is_error'', JBool True)]
                 | ValueError e \<Rightarrow>
                     [(''allowed'', JBool True), (''reason'', JStr e), (''is_error'', JBool True)]
                 | OtherError e \<Rightarrow>
                     [(''allowed'', JBool True), (''reason'', JStr e), (''is_error'', JBool True)]
                 | Replied result \<Rightarrow>
                     [(''allowed'', JBool True), (''reason'', JStr (no_attribute_get result)),
                      (''is_error'', JBool True)])"
proof -
  have a: "dict_get (apply_guardrails sv text api_key guard_url detailed) ''allowed'' = JBool True
       \<and> dict_get (apply_guardrails sv text api_key guard_url detailed) ''is_error'' = JBool True
       \<and> (\<exists>reason. map_of (apply_guardrails sv text api_key guard_url detailed) ''reason''
                      = Some (JStr reason))
       \<and> map_of (apply_guardrails sv text api_key guard_url detailed) ''is_malicious'' = None
       \<and> \<not> is_malicious (apply_guardrails sv text api_key guard_url detailed)"
    using guard_fail_shape [OF assms]
    by (elim disjE exE) (simp_all only: guard_error_facts guard_status_error_facts, simp_all)
  from a guard_fail_verdict [OF assms] show ?thesis by (simp only: simp_thms)
qed

text \<open>
  C2, at a Guard that answers every request with status 503, with no key configured, at
  a Guard that cannot be reached, and at a Guard that answers with a JSON list: each
  verdict carries the reason of its failure.
\<close>

theorem guard_failure_fails_open_witness:
  "guard_call_fails failing_guard_services (JStr ''hi'') ''secret123456'' DEFAULT_GUARD_URL False
   \<and> apply_guardrails failing_guard_services (JStr ''hi'') ''secret123456'' DEFAULT_GUARD_URL False
       = [(''allowed'', JBool True), (''reason'', JStr ''Guard API error: 503''),
          (''detail'', JStr ''Service Unavailable''), (''is_error'', JBool True)]
   \<and> guard_call_fails failing_guard_services (JStr ''hi'') [] DEFAULT_GUARD_URL False
   \<and> apply_guardrails failing_guard_services (JStr ''hi'') [] DEFAULT_GUARD_URL False
       = [(''allowed'', JBool True), (''reason'', JStr ''Guard not configured''),
          (''is_error'', JBool True)]
   \<and> guard_call_fails unreachable_guard_services (JStr ''hi'') ''secret123456''
         DEFAULT_GUARD_URL False
   \<and> apply_guardrails unreachable_guard_services (JStr ''hi'') ''secret123456''
         DEFAULT_GUARD_URL False
       = [(''allowed'', JBool True), (''reason'', JStr ''All connection attempts failed''),
          (''is_error'', JBool True)]
   \<and> guard_call_fails list_reply_services (JStr ''hi'') ''secret123456'' DEFAULT_GUARD_URL False
   \<and> apply_guardrails list_reply_services (JStr ''hi'') ''secret123456'' DEFAULT_GUARD_URL False
       = [(''allowed'', JBool True),
          (''reason'', JStr ([CHR 0x27] @ ''list'' @ [CHR 0x27] @ '' object has no attribute ''
                             @ [CHR 0x27] @ ''get'' @ [CHR 0x27])),
          (''is_error'', JBool True)]
   \<and> dict_get (apply_guardrails failing_guard_services (JStr ''hi'') ''secret123456''
         DEFAULT_GUARD_URL False) ''allowed'' = JBool True
   \<and> \<not> is_malicious (apply_guardrails failing_guard_services (JStr ''hi'') ''secret123456''
         DEFAULT_GUARD_URL False)"
proof -
  have h1: "guard_call_fails failing_guard_services (JStr ''hi'') ''secret123456''
             DEFAULT_GUARD_URL False"
    by code_simp
  have h2: "guard_call_fails failing_guard_services (JStr ''hi'') [] DEFAULT_GUARD_URL False"
    by code_simp
  have h3: "guard_call_fails unreachable_guard_services (JStr ''hi'') ''secret123456''
             DEFAULT_GUARD_URL False"
    by code_simp
  have h4: "guard_call_fails list_reply_services (JStr ''hi'') ''secret123456''
             DEFAULT_GUARD_URL False"
    by code_simp
  have u: "DEFAULT_GUARD_URL \<noteq> []" by (simp add: DEFAULT_GUARD_URL_def)
  have p1: "guard_post failing_guard_services (py_rstrip ''/'' DEFAULT_GUARD_URL) ''secret123456''
              (JObj [(''guard'', JStr ''hi'')]) (py_lower (py_str (JBool False)))
            = StatusError 503 ''Service Unavailable''"
    by (simp add: failing_guard_services_def)
  have p3: "guard_post unreachable_guard_services (py_rstrip ''/'' DEFAULT_GUARD_URL) ''secret123456''
              (JObj [(''guard'', JStr ''hi'')]) (py_lower (py_str (JBool False)))
            = ConnectError ''All connection attempts failed''"
    by (simp add: unreachable_guard_services_def)
  have p4: "guard_post list_reply_services (py_rstrip ''/'' DEFAULT_GUARD_URL) ''secret123456''
              (JObj [(''guard'', JStr ''hi'')]) (py_lower (py_str (JBool False)))
            = Replied (JList [])"
    by (simp add: list_reply_services_def)
  have n: "str_of_nat 503 = ''503''" by code_simp
  have g: "no_attribute_get (JList []) = [CHR 0x27] @ ''list'' @ [CHR 0x27]
             @ '' object has no attribute '' @ [CHR 0x27] @ ''get'' @ [CHR 0x27]"
    by (simp add: no_attribute_get_def)
  note t1 = guard_failure_fails_open [OF h1]
  note t2 = guard_failure_fails_open [OF h2]
  note t3 = guard_failure_fails_open [OF h3]
  note t4 = guard_failure_fails_open [OF h4]
  have e1: "apply_guardrails failing_guard_services (JStr ''hi'') ''secret123456''
              DEFAULT_GUARD_URL False
       = [(''allowed'', JBool True), (''reason'', JStr ''Guard API error: 503''),
          (''detail'', JStr ''Service Unavailable''), (''is_error'', JBool True)]"
    using t1 u p1 n by simp
  have e2: "apply_guardrails failing_guard_services (JStr ''hi'') [] DEFAULT_GUARD_URL False
       = [(''allowed'', JBool True), (''reason'', JStr ''Guard not configured''),
          (''is_error'', JBool True)]"
    using t2 by simp
  have e3: "apply_guardrails unreachable_guard_services (JStr ''hi'') ''secret123456''
         DEFAULT_GUARD_URL False
       = [(''allowed'', JBool True), (''reason'', JStr ''All connection attempts failed''),
          (''is_error'', JBool True)]"
    using t3 u p3 by simp
  have e4: "apply_guardrails list_reply_services (JStr ''hi'') ''secret123456''
         DEFAULT_GUARD_URL False
       = [(''allowed'', JBool True),
          (''reason'', JStr ([CHR 0x27] @ ''list'' @ [CHR 0x27] @ '' object has no attribute ''
                             @ [CHR 0x27] @ ''get'' @ [CHR 0x27])),
          (''is_error'', JBool True)]"
    using t4 u p4 g by simp
  have d1: "dict_get (apply_guardrails failing_guard_services (JStr ''hi'') ''secret123456''
         DEFAULT_GUARD_URL False) ''allowed'' = JBool True"
    using t1 by (elim conjE)
  have m1: "\<not> is_malicious (apply_guardrails failing_guard_services (JStr ''hi'')
         ''secret123456'' DEFAULT_GUARD_URL False)"
    using t1 by (elim conjE)
  show ?thesis by (intro conjI h1 e1 h2 e2 h3 e3 h4 e4 d1 m1)
qed

text \<open>
  C3.  For an answer of the Guard that is a JSON object, the decision that
  \<open>apply_guardrails\<close> takes is the one of the specification (\<open>decision\<close>, then
  \<open>action\<close>, then \<open>recommendation\<close>, then the default \<open>allow\<close>), and \<open>is_malicious\<close> is
  true exactly when that decision, as a string and lowercased, is \<open>block\<close>; \<open>allowed\<close> is
  its negation.  So \<open>review\<close> and every other value give \<open>is_malicious\<close> false.
\<close>

theorem guard_decision_order:
  assumes "api_key \<noteq> []" and "guard_url \<noteq> []"
    and "guard_post sv (py_rstrip ''/'' guard_url) api_key (JObj [(''guard'', text)])
           (py_lower (py_str (JBool detailed))) = Replied (JObj d)"
  shows "is_malicious (apply_guardrails sv text api_key guard_url detailed)
           = (py_lower (py_str (spec_decision d)) = ''block'')
       \<and> dict_get (apply_guardrails sv text api_key guard_url detailed) ''is_malicious''
           = JBool (py_lower (py_str (spec_decision d)) = ''block'')
       \<and> dict_get (apply_guardrails sv text api_key guard_url detailed) ''allowed''
           = JBool (py_lower (py_str (spec_decision d)) \<noteq> ''block'')"
  using assms
  by (simp add: apply_guardrails_def Let_def spec_decision_eq is_malicious_def
        dict_get_default_set dict_get_set)

text \<open>
  C3, at an answer with an empty \<open>decision\<close>, the \<open>action\<close> \<open>Block\<close> and the
  \<open>recommendation\<close> \<open>allow\<close>: the decision is the action, and it blocks.
\<close>

theorem guard_decision_order_witness:
  "''secret123456'' \<noteq> [] \<and> DEFAULT_GUARD_URL \<noteq> []
   \<and> guard_post action_services (py_rstrip ''/'' DEFAULT_GUARD_URL) ''secret123456''
         (JObj [(''guard'', JStr ''hi'')]) (py_lower (py_str (JBool False)))
       = Replied (JObj [(''decision'', JStr []), (''action'', JStr ''Block''),
                        (''recommendation'', JStr ''allow'')])
   \<and> spec_decision [(''decision'', JStr []), (''action'', JStr ''Block''),
                      (''recommendation'', JStr ''allow'')] = JStr ''Block''
   \<and> is_malicious (apply_guardrails action_services (JStr ''hi'') ''secret123456''
         DEFAULT_GUARD_URL False)"
proof -
  have k: "''secret123456'' \<noteq> []" by simp
  have u: "DEFAULT_GUARD_URL \<noteq> []" by (simp add: DEFAULT_GUARD_URL_def)
  have p: "guard_post action_services (py_rstrip ''/'' DEFAULT_GUARD_URL) ''secret123456''
         (JObj [(''guard'', JStr ''hi'')]) (py_lower (py_str (JBool False)))
       = Replied (JObj [(''decision'', JStr []), (''action'', JStr ''Block''),
                        (''recommendation'', JStr ''allow'')])"
    by (simp add: action_services_def)
  have s: "spec_decision [(''decision'', JStr []), (''action'', JStr ''Block''),
                      (''recommendation'', JStr ''allow'')] = JStr ''Block''"
    by code_simp
  have b: "py_lower (py_str (JStr ''Block'')) = ''block''" by code_simp
  show ?thesis using k u p s b guard_decision_order [OF k u p] by simp
qed

section \<open>Properties of the chat turn mediation\<close>

lemma snd_chat_reply:
  "snd (chat_reply cfg sv g calls data) = calls
   \<or> (\<exists>t. snd (chat_reply cfg sv g calls data) = calls @ [GuardCall t])"
  by (simp add: chat_reply_def Let_def split: sum.split json.split)

lemma snd_chat_ollama:
  "\<exists>rest. snd (chat_ollama cfg sv msgs g calls)
            = calls @ OllamaCall (ollama_base_url cfg @ ''/api/chat'')
                        (ollama_payload (ollama_model cfg) msgs) # rest
          \<and> filter is_ollama_call rest = []"
proof (cases "ollama_post sv (ollama_base_url cfg @ ''/api/chat'')
                (ollama_payload (ollama_model cfg) msgs)")
  case (Replied data)
  let ?calls' = "calls @ [OllamaCall (ollama_base_url cfg @ ''/api/chat'')
                        (ollama_payload (ollama_model cfg) msgs)]"
  have e: "chat_ollama cfg sv msgs g calls = chat_reply cfg sv g ?calls' data"
    using Replied by (simp add: chat_ollama_def Let_def)
  from snd_chat_reply [of cfg sv g ?calls' data] show ?thesis
  proof
    assume "snd (chat_reply cfg sv g ?calls' data) = ?calls'"
    then have "snd (chat_ollama cfg sv msgs g calls)
            = calls @ OllamaCall (ollama_base_url cfg @ ''/api/chat'')
                        (ollama_payload (ollama_model cfg) msgs) # []
          \<and> filter is_ollama_call [] = []"
      using e by simp
    then show ?thesis by (rule exI)
  next
    assume "\<exists>t. snd (chat_reply cfg sv g ?calls' data) = ?calls' @ [GuardCall t]"
    then obtain t where "snd (chat_reply cfg sv g ?calls' data) = ?calls' @ [GuardCall t]" ..
    then have "snd (chat_ollama cfg sv msgs g calls)
            = calls @ OllamaCall (ollama_base_url cfg @ ''/api/chat'')
                        (ollama_payload (ollama_model cfg) msgs) # [GuardCall t]
          \<and> filter is_ollama_call [GuardCall t] = []"
      using e by simp
    then show ?thesis by (rule exI)
  qed
next
  case (StatusError code body)
  then have "snd (chat_ollama cfg sv msgs g calls)
            = calls @ OllamaCall (ollama_base_url cfg @ ''/api/chat'')
                        (ollama_payload (ollama_model cfg) msgs) # []
          \<and> filter is_ollama_call [] = []"
    by (simp add: chat_ollama_def Let_def)
  then show ?thesis by (rule exI)
next
  case (ConnectError e)
  then have "snd (chat_ollama cfg sv msgs g calls)
            = calls @ OllamaCall (ollama_base_url cfg @ ''/api/chat'')
                        (ollama_payload (ollama_model cfg) msgs) # []
          \<and> filter is_ollama_call [] = []"
    by (simp add: chat_ollama_def Let_def)
  then show ?thesis by (rule exI)
next
  case (ValueError e)
  then have "snd (chat_ollama cfg sv msgs g calls)
            = calls @ OllamaCall (ollama_base_url cfg @ ''/api/chat'')
                        (ollama_payload (ollama_model cfg) msgs) # []
          \<and> filter is_ollama_call [] = []"
    by (simp add: chat_ollama_def Let_def)
  then show ?thesis by (rule exI)
next
  case (OtherError e)
  then have "snd (chat_ollama cfg sv msgs g calls)
            = calls @ OllamaCall (ollama_base_url cfg @ ''/api/chat'')
                        (ollama_payload (ollama_model cfg) msgs) # []
          \<and> filter is_ollama_call [] = []"
    by (simp add: chat_ollama_def Let_def)
  then show ?thesis by (rule exI)
qed


lemma chat_reply_blocked:
  assumes "v1_guard_enabled cfg" and "v1_guard_api_key cfg \<noteq> []"
    and "enforce_side cfg = ''assistant'' \<or> enforce_side cfg = ''both''"
    and "assistant_text data = Inr t" and "py_truthy t"
    and "is_malicious (apply_guardrails sv t (v1_guard_api_key cfg) (v1_guard_url_base cfg)
           (v1_guard_detailed cfg))"
  shows "chat_reply cfg sv g calls data
         = (Inr \<lparr> message = assistant_msg ASSISTANT_BLOCKED,
                  guard = Some (apply_guardrails sv t (v1_guard_api_key cfg)
                                  (v1_guard_url_base cfg) (v1_guard_detailed cfg)) \<rparr>,
            calls @ [GuardCall t])"
proof -
  obtain d where d: "data = JObj d"
    using assms(4) by (cases data) (simp_all add: assistant_text_def)
  show ?thesis
    using assms by (auto simp add: chat_reply_def d Let_def dict_get_default_set)
qed

lemma chat_not_configured:
  "ollama_base_url cfg = [] \<or> ollama_model cfg = [] \<or> msgs = [] \<Longrightarrow> snd (chat cfg sv msgs) = []"
  by (auto simp add: chat_def)

lemma chat_unfold:
  assumes "ollama_base_url cfg \<noteq> []" and "ollama_model cfg \<noteq> []" and "msgs \<noteq> []"
  shows "chat cfg sv msgs =
     (if user_checked cfg msgs
      then (if is_malicious (apply_guardrails sv (JStr (last_user msgs)) (v1_guard_api_key cfg)
                  (v1_guard_url_base cfg) (v1_guard_detailed cfg))
            then (Inr \<lparr> message = assistant_msg USER_BLOCKED,
                        guard = Some (apply_guardrails sv (JStr (last_user msgs))
                          (v1_guard_api_key cfg) (v1_guard_url_base cfg) (v1_guard_detailed cfg)) \<rparr>,
                  [GuardCall (JStr (last_user msgs))])
            else chat_ollama cfg sv msgs
                   (Some (apply_guardrails sv (JStr (last_user msgs))
                          (v1_guard_api_key cfg) (v1_guard_url_base cfg) (v1_guard_detailed cfg)))
                   [GuardCall (JStr (last_user msgs))])
      else chat_ollama cfg sv msgs None [])"
  using assms by (auto simp add: chat_def user_checked_def Let_def)


lemma guard_fail_not_malicious:
  assumes "guard_call_fails sv text api_key guard_url detailed"
  shows "\<not> is_malicious (apply_guardrails sv text api_key guard_url detailed)"
  using guard_fail_shape [OF assms]
  by (elim disjE exE) (simp_all only: guard_error_facts guard_status_error_facts, simp_all)

lemma last_user_Nil: "last_user [] = []"
  by (simp add: last_user_def)

lemma chat_ollama_blocked:
  assumes "v1_guard_enabled cfg" and "v1_guard_api_key cfg \<noteq> []"
    and "enforce_side cfg = ''assistant'' \<or> enforce_side cfg = ''both''"
    and "ollama_post sv (ollama_base_url cfg @ ''/api/chat'')
           (ollama_payload (ollama_model cfg) msgs) = Replied data"
    and "assistant_text data = Inr t" and "py_truthy t"
    and "is_malicious (apply_guardrails sv t (v1_guard_api_key cfg) (v1_guard_url_base cfg)
           (v1_guard_detailed cfg))"
  shows "chat_ollama cfg sv msgs g calls
         = (Inr \<lparr> message = assistant_msg ASSISTANT_BLOCKED,
                  guard = Some (apply_guardrails sv t (v1_guard_api_key cfg)
                                  (v1_guard_url_base cfg) (v1_guard_detailed cfg)) \<rparr>,
            calls @ [OllamaCall (ollama_base_url cfg @ ''/api/chat'')
                       (ollama_payload (ollama_model cfg) msgs), GuardCall t])"
proof -
  have "chat_ollama cfg sv msgs g calls
        = chat_reply cfg sv g (calls @ [OllamaCall (ollama_base_url cfg @ ''/api/chat'')
                       (ollama_payload (ollama_model cfg) msgs)]) data"
    using assms(4) by (simp add: chat_ollama_def Let_def)
  then show ?thesis
    using chat_reply_blocked [OF assms(1,2,3,5,6,7)] by simp
qed

lemma ollama_call_in_calls:
  assumes "OllamaCall url payload \<in> set (calls @ OllamaCall url0 payload0 # rest)"
    and "filter is_ollama_call calls = []" and "filter is_ollama_call rest = []"
  shows "url = url0 \<and> payload = payload0"
proof -
  have "OllamaCall url payload \<notin> set calls"
    using assms(2) by (auto simp add: filter_empty_conv)
  moreover have "OllamaCall url payload \<notin> set rest"
    using assms(3) by (auto simp add: filter_empty_conv)
  ultimately show ?thesis using assms(1) by simp
qed

lemma chat_reaches_ollama:
  assumes "OllamaCall url payload \<in> set (snd (chat cfg sv msgs))"
  shows "url = ollama_base_url cfg @ ''/api/chat''
       \<and> payload = ollama_payload (ollama_model cfg) msgs
       \<and> (\<exists>g calls. chat cfg sv msgs = chat_ollama cfg sv msgs g calls
              \<and> filter is_ollama_call calls = [])"
proof -
  have conf: "ollama_base_url cfg \<noteq> []" "ollama_model cfg \<noteq> []" "msgs \<noteq> []"
    using assms chat_not_configured [of cfg msgs sv] by auto
  let ?V = "apply_guardrails sv (JStr (last_user msgs)) (v1_guard_api_key cfg)
              (v1_guard_url_base cfg) (v1_guard_detailed cfg)"
  have nb: "\<not> (user_checked cfg msgs \<and> is_malicious ?V)"
  proof
    assume "user_checked cfg msgs \<and> is_malicious ?V"
    then have "snd (chat cfg sv msgs) = [GuardCall (JStr (last_user msgs))]"
      using chat_unfold [OF conf, of sv] by simp
    with assms show False by simp
  qed
  have ex: "\<exists>g calls. chat cfg sv msgs = chat_ollama cfg sv msgs g calls
              \<and> filter is_ollama_call calls = []"
  proof (cases "user_checked cfg msgs")
    case True
    then have "chat cfg sv msgs = chat_ollama cfg sv msgs (Some ?V) [GuardCall (JStr (last_user msgs))]
               \<and> filter is_ollama_call [GuardCall (JStr (last_user msgs))] = []"
      using nb chat_unfold [OF conf, of sv] by simp
    then show ?thesis by (intro exI)
  next
    case False
    then have "chat cfg sv msgs = chat_ollama cfg sv msgs None []
               \<and> filter is_ollama_call [] = []"
      using chat_unfold [OF conf, of sv] by simp
    then show ?thesis by (intro exI)
  qed
  then obtain g calls where c: "chat cfg sv msgs = chat_ollama cfg sv msgs g calls"
    and f: "filter is_ollama_call calls = []" by (elim exE conjE)
  obtain rest where r: "snd (chat_ollama cfg sv msgs g calls)
            = calls @ OllamaCall (ollama_base_url cfg @ ''/api/chat'')
                        (ollama_payload (ollama_model cfg) msgs) # rest"
    and fr: "filter is_ollama_call rest = []"
    using snd_chat_ollama [of cfg sv msgs g calls] by (elim exE conjE)
  have "OllamaCall url payload \<in> set (calls @ OllamaCall (ollama_base_url cfg @ ''/api/chat'')
                        (ollama_payload (ollama_model cfg) msgs) # rest)"
    using assms c r by simp
  from ollama_call_in_calls [OF this f fr] ex show ?thesis by simp
qed

text \<open>
  The text of the reply is the \<open>content\<close> of the \<open>message\<close> object of the answer of the
  model server.
\<close>

lemma assistant_text_content:
  assumes "map_of d ''message'' = Some (JObj m)" and "map_of m ''content'' = Some t"
    and "py_truthy t"
  shows "assistant_text (JObj d) = Inr t"
proof -
  have "m \<noteq> []" using assms(2) by auto
  then have "py_or (dict_get d ''message'') (JObj []) = JObj m"
    using assms(1) by (simp add: py_or_def dict_get_def)
  moreover have "py_or (dict_get m ''content'') (JStr []) = t"
    using assms(2,3) by (simp add: py_or_def dict_get_def)
  ultimately show ?thesis by (simp add: assistant_text_def)
qed

text \<open>
  C4.  In a chat request where the Guard is enabled and keyed and the enforcement side
  is \<open>assistant\<close> or \<open>both\<close>, where the handler called the model server and the model
  server answered with a JSON object whose \<open>message\<close> is an object with the \<open>content\<close>
  \<open>t\<close>, the reply text \<open>t\<close> is non-empty (truthy), and the Guard verdict on \<open>t\<close> is
  malicious: the message returned is the fixed notice that the model response was flagged,
  the verdict attached is the one on \<open>t\<close> (whatever the user-side check returned
  before), the model server was called exactly once, and the last call of the request is
  the Guard check of \<open>t\<close>.
\<close>

theorem chat_assistant_side_block:
  assumes "v1_guard_enabled cfg" and "v1_guard_api_key cfg \<noteq> []"
    and "enforce_side cfg = ''assistant'' \<or> enforce_side cfg = ''both''"
    and "OllamaCall url payload \<in> set (snd (chat cfg sv msgs))"
    and "ollama_post sv url payload = Replied (JObj d)"
    and "map_of d ''message'' = Some (JObj m)" and "map_of m ''content'' = Some t"
    and "py_truthy t"
    and "is_malicious (apply_guardrails sv t (v1_guard_api_key cfg) (v1_guard_url_base cfg)
           (v1_guard_detailed cfg))"
  shows "fst (chat cfg sv msgs)
           = Inr \<lparr> message =
                     JObj [(''role'', JStr ''assistant''),
                           (''content'',
                            JStr ''[Blocked by AI Guard] The model response was flagged as unsafe.'')],
                   guard = Some (apply_guardrails sv t (v1_guard_api_key cfg)
                                   (v1_guard_url_base cfg) (v1_guard_detailed cfg)) \<rparr>
       \<and> length (filter is_ollama_call (snd (chat cfg sv msgs))) = 1
       \<and> last (snd (chat cfg sv msgs)) = GuardCall t"
proof -
  have at: "assistant_text (JObj d) = Inr t"
    using assms(6,7,8) by (rule assistant_text_content)
  from chat_reaches_ollama [OF assms(4)]
  obtain g calls where u: "url = ollama_base_url cfg @ ''/api/chat''"
    and p: "payload = ollama_payload (ollama_model cfg) msgs"
    and c: "chat cfg sv msgs = chat_ollama cfg sv msgs g calls"
    and f: "filter is_ollama_call calls = []" by (elim exE conjE)
  have rep: "ollama_post sv (ollama_base_url cfg @ ''/api/chat'')
           (ollama_payload (ollama_model cfg) msgs) = Replied (JObj d)"
    using assms(5) u p by simp
  show ?thesis
    unfolding c chat_ollama_blocked [OF assms(1,2,3) rep at assms(8,9)]
    using f by (simp add: assistant_msg_def ASSISTANT_BLOCKED_def)
qed

text \<open>
  C4, with the enforcement side \<open>both\<close>, at a model server that answers \<open>Hello!\<close> and
  a Guard that lets the prompt \<open>hi\<close> pass and flags the reply: the calls are the Guard on
  the prompt, the model server, the Guard on the reply, and the verdict returned is the
  second one, not the verdict on the prompt.  And with the enforcement side \<open>assistant\<close>,
  at a Guard that flags every text.
\<close>

theorem chat_assistant_side_block_witness:
  "v1_guard_enabled demo_config \<and> v1_guard_api_key demo_config \<noteq> []
   \<and> enforce_side demo_config = ''both''
   \<and> OllamaCall ''http://ollama:11434/api/chat''
         (ollama_payload ''llama3.2'' [\<lparr>role = ''user'', content = ''hi''\<rparr>])
       \<in> set (snd (chat demo_config reply_flagging_services
                      [\<lparr>role = ''user'', content = ''hi''\<rparr>]))
   \<and> ollama_post reply_flagging_services ''http://ollama:11434/api/chat''
         (ollama_payload ''llama3.2'' [\<lparr>role = ''user'', content = ''hi''\<rparr>])
       = Replied (JObj [(''message'',
                        JObj [(''role'', JStr ''assistant''), (''content'', JStr ''Hello!'')])])
   \<and> apply_guardrails reply_flagging_services (JStr ''hi'') (v1_guard_api_key demo_config)
         (v1_guard_url_base demo_config) (v1_guard_detailed demo_config)
       = [(''decision'', JStr ''allow''), (''is_malicious'', JBool False),
          (''allowed'', JBool True)]
   \<and> apply_guardrails reply_flagging_services (JStr ''Hello!'') (v1_guard_api_key demo_config)
         (v1_guard_url_base demo_config) (v1_guard_detailed demo_config)
       = [(''decision'', JStr ''block''), (''is_malicious'', JBool True),
          (''allowed'', JBool False)]
   \<and> chat demo_config reply_flagging_services [\<lparr>role = ''user'', content = ''hi''\<rparr>]
       = (Inr \<lparr> message =
                  JObj [(''role'', JStr ''assistant''),
                        (''content'',
                         JStr ''[Blocked by AI Guard] The model response was flagged as unsafe.'')],
                guard = Some [(''decision'', JStr ''block''), (''is_malicious'', JBool True),
                              (''allowed'', JBool False)] \<rparr>,
          [GuardCall (JStr ''hi''),
           OllamaCall ''http://ollama:11434/api/chat''
             (ollama_payload ''llama3.2'' [\<lparr>role = ''user'', content = ''hi''\<rparr>]),
           GuardCall (JStr ''Hello!'')])
   \<and> fst (chat (demo_config\<lparr>enforce_side := ''assistant''\<rparr>) flagging_services
            [\<lparr>role = ''user'', content = ''hi''\<rparr>])
       = Inr \<lparr> message =
                 JObj [(''role'', JStr ''assistant''),
                       (''content'',
                        JStr ''[Blocked by AI Guard] The model response was flagged as unsafe.'')],
               guard = Some [(''decision'', JStr ''BLOCK''), (''is_malicious'', JBool True),
                             (''allowed'', JBool False)] \<rparr>"
proof -
  let ?msgs = "[\<lparr>role = ''user'', content = ''hi''\<rparr>]"
  let ?url = "''http://ollama:11434/api/chat''"
  let ?payload = "ollama_payload ''llama3.2'' ?msgs"
  let ?m = "[(''role'', JStr ''assistant''), (''content'', JStr ''Hello!'')]"
  let ?d = "[(''message'', JObj ?m)]"
  let ?acfg = "demo_config\<lparr>enforce_side := ''assistant''\<rparr>"
  let ?notice = "JObj [(''role'', JStr ''assistant''),
                       (''content'',
                        JStr ''[Blocked by AI Guard] The model response was flagged as unsafe.'')]"
  have h1: "v1_guard_enabled demo_config" by code_simp
  have h2: "v1_guard_api_key demo_config \<noteq> []" by code_simp
  have h3: "enforce_side demo_config = ''assistant'' \<or> enforce_side demo_config = ''both''"
    by code_simp
  have h3': "enforce_side demo_config = ''both''" by code_simp
  have h4: "OllamaCall ?url ?payload \<in> set (snd (chat demo_config reply_flagging_services ?msgs))"
    by code_simp
  have h5: "ollama_post reply_flagging_services ?url ?payload = Replied (JObj ?d)"
    by (simp add: reply_flagging_services_def hello_reply_def assistant_msg_def)
  have h6: "map_of ?d ''message'' = Some (JObj ?m)" by simp
  have h7: "map_of ?m ''content'' = Some (JStr ''Hello!'')" by simp
  have h8: "py_truthy (JStr ''Hello!'')" by simp
  have v1: "apply_guardrails reply_flagging_services (JStr ''hi'') (v1_guard_api_key demo_config)
         (v1_guard_url_base demo_config) (v1_guard_detailed demo_config)
       = [(''decision'', JStr ''allow''), (''is_malicious'', JBool False),
          (''allowed'', JBool True)]"
    by code_simp
  have v2: "apply_guardrails reply_flagging_services (JStr ''Hello!'') (v1_guard_api_key demo_config)
         (v1_guard_url_base demo_config) (v1_guard_detailed demo_config)
       = [(''decision'', JStr ''block''), (''is_malicious'', JBool True),
          (''allowed'', JBool False)]"
    by code_simp
  have h9: "is_malicious (apply_guardrails reply_flagging_services (JStr ''Hello!'')
              (v1_guard_api_key demo_config) (v1_guard_url_base demo_config)
              (v1_guard_detailed demo_config))"
    unfolding v2 by code_simp
  have calls: "snd (chat demo_config reply_flagging_services ?msgs)
       = [GuardCall (JStr ''hi''), OllamaCall ?url ?payload, GuardCall (JStr ''Hello!'')]"
    by code_simp
  have A: "fst (chat demo_config reply_flagging_services ?msgs)
       = Inr \<lparr> message = ?notice,
               guard = Some [(''decision'', JStr ''block''), (''is_malicious'', JBool True),
                             (''allowed'', JBool False)] \<rparr>"
    using chat_assistant_side_block [OF h1 h2 h3 h4 h5 h6 h7 h8 h9] unfolding v2 by simp
  have A': "chat demo_config reply_flagging_services ?msgs
       = (Inr \<lparr> message = ?notice,
                guard = Some [(''decision'', JStr ''block''), (''is_malicious'', JBool True),
                              (''allowed'', JBool False)] \<rparr>,
          [GuardCall (JStr ''hi''), OllamaCall ?url ?payload, GuardCall (JStr ''Hello!'')])"
    using A calls by (simp add: prod_eq_iff)
  have b1: "v1_guard_enabled ?acfg" by code_simp
  have b2: "v1_guard_api_key ?acfg \<noteq> []" by code_simp
  have b3: "enforce_side ?acfg = ''assistant'' \<or> enforce_side ?acfg = ''both''" by code_simp
  have b4: "OllamaCall ?url ?payload \<in> set (snd (chat ?acfg flagging_services ?msgs))"
    by code_simp
  have b5: "ollama_post flagging_services ?url ?payload = Replied (JObj ?d)"
    by (simp add: flagging_services_def hello_reply_def assistant_msg_def)
  have w: "apply_guardrails flagging_services (JStr ''Hello!'') (v1_guard_api_key ?acfg)
             (v1_guard_url_base ?acfg) (v1_guard_detailed ?acfg)
           = [(''decision'', JStr ''BLOCK''), (''is_malicious'', JBool True),
              (''allowed'', JBool False)]"
    by code_simp
  have b9: "is_malicious (apply_guardrails flagging_services (JStr ''Hello!'')
              (v1_guard_api_key ?acfg) (v1_guard_url_base ?acfg) (v1_guard_detailed ?acfg))"
    unfolding w by code_simp
  have B: "fst (chat ?acfg flagging_services ?msgs)
       = Inr \<lparr> message = ?notice,
               guard = Some [(''decision'', JStr ''BLOCK''), (''is_malicious'', JBool True),
                             (''allowed'', JBool False)] \<rparr>"
    using chat_assistant_side_block [OF b1 b2 b3 b4 b5 h6 h7 h8 b9] unfolding w by simp
  show ?thesis by (intro conjI h1 h2 h3' h4 h5 v1 v2 A' B)
qed

text \<open>
  C1, as the code has it.  In a chat request that passes the validation of the handler
  (model server URL and model name set), where the Guard is enabled and keyed, the
  enforcement side is \<open>user\<close> or \<open>both\<close>, and the most recent user message is
  non-empty: when the Guard verdict on that message is malicious, the handler returns the
  fixed notice \<open>USER_BLOCKED\<close> with that verdict, and the only call made is the Guard
  check (the model server is never called); when the Guard invocation fails (an
  error-tagged verdict), the handler goes on and calls the model server next.
\<close>

theorem chat_user_side_block:
  assumes "ollama_base_url cfg \<noteq> []" and "ollama_model cfg \<noteq> []"
    and "v1_guard_enabled cfg" and "v1_guard_api_key cfg \<noteq> []"
    and "enforce_side cfg = ''user'' \<or> enforce_side cfg = ''both''"
    and "last_user msgs \<noteq> []"
  shows "(is_malicious (apply_guardrails sv (JStr (last_user msgs)) (v1_guard_api_key cfg)
                          (v1_guard_url_base cfg) (v1_guard_detailed cfg))
          \<longrightarrow> chat cfg sv msgs
                = (Inr \<lparr> message = assistant_msg USER_BLOCKED,
                         guard = Some (apply_guardrails sv (JStr (last_user msgs))
                                   (v1_guard_api_key cfg) (v1_guard_url_base cfg)
                                   (v1_guard_detailed cfg)) \<rparr>,
                   [GuardCall (JStr (last_user msgs))])
              \<and> filter is_ollama_call (snd (chat cfg sv msgs)) = [])
       \<and> (guard_call_fails sv (JStr (last_user msgs)) (v1_guard_api_key cfg)
             (v1_guard_url_base cfg) (v1_guard_detailed cfg)
          \<longrightarrow> (\<exists>rest. snd (chat cfg sv msgs)
                 = GuardCall (JStr (last_user msgs))
                   # OllamaCall (ollama_base_url cfg @ ''/api/chat'')
                       (ollama_payload (ollama_model cfg) msgs) # rest))"
proof -
  let ?V = "apply_guardrails sv (JStr (last_user msgs)) (v1_guard_api_key cfg)
              (v1_guard_url_base cfg) (v1_guard_detailed cfg)"
  have ne: "msgs \<noteq> []" using assms(6) last_user_Nil by auto
  have uc: "user_checked cfg msgs" using assms by (simp add: user_checked_def)
  note unf = chat_unfold [OF assms(1,2) ne, of sv]
  have a: "chat cfg sv msgs
                = (Inr \<lparr> message = assistant_msg USER_BLOCKED, guard = Some ?V \<rparr>,
                   [GuardCall (JStr (last_user msgs))])
              \<and> filter is_ollama_call (snd (chat cfg sv msgs)) = []"
    if "is_malicious ?V"
    using that uc unf by simp
  have b: "\<exists>rest. snd (chat cfg sv msgs)
                 = GuardCall (JStr (last_user msgs))
                   # OllamaCall (ollama_base_url cfg @ ''/api/chat'')
                       (ollama_payload (ollama_model cfg) msgs) # rest"
    if f: "guard_call_fails sv (JStr (last_user msgs)) (v1_guard_api_key cfg)
             (v1_guard_url_base cfg) (v1_guard_detailed cfg)"
  proof -
    have "\<not> is_malicious ?V" using guard_fail_not_malicious [OF f] .
    then have c: "chat cfg sv msgs
                 = chat_ollama cfg sv msgs (Some ?V) [GuardCall (JStr (last_user msgs))]"
      using uc unf by simp
    obtain rest where "snd (chat_ollama cfg sv msgs (Some ?V) [GuardCall (JStr (last_user msgs))])
            = [GuardCall (JStr (last_user msgs))]
              @ OllamaCall (ollama_base_url cfg @ ''/api/chat'')
                        (ollama_payload (ollama_model cfg) msgs) # rest"
      using snd_chat_ollama [of cfg sv msgs "Some ?V" "[GuardCall (JStr (last_user msgs))]"]
      by (elim exE conjE)
    then have "snd (chat cfg sv msgs)
                 = GuardCall (JStr (last_user msgs))
                   # OllamaCall (ollama_base_url cfg @ ''/api/chat'')
                       (ollama_payload (ollama_model cfg) msgs) # rest"
      using c by simp
    then show ?thesis by (rule exI)
  qed
  show ?thesis by (rule conjI) (rule impI, erule a, rule impI, erule b)
qed

text \<open>
  C1 as amended, at a Guard that flags every text (the request is blocked after one Guard
  call) and at a Guard that answers 503 (the model server is called second).
\<close>

theorem chat_user_side_block_witness:
  "ollama_base_url demo_config \<noteq> [] \<and> ollama_model demo_config \<noteq> []
   \<and> v1_guard_enabled demo_config \<and> v1_guard_api_key demo_config \<noteq> []
   \<and> enforce_side demo_config = ''both''
   \<and> last_user [\<lparr>role = ''user'', content = ''hi''\<rparr>] = ''hi''
   \<and> is_malicious (apply_guardrails flagging_services (JStr ''hi'') (v1_guard_api_key demo_config)
         (v1_guard_url_base demo_config) (v1_guard_detailed demo_config))
   \<and> chat demo_config flagging_services [\<lparr>role = ''user'', content = ''hi''\<rparr>]
       = (Inr \<lparr> message = assistant_msg USER_BLOCKED,
                guard = Some [(''decision'', JStr ''BLOCK''), (''is_malicious'', JBool True),
                              (''allowed'', JBool False)] \<rparr>,
          [GuardCall (JStr ''hi'')])
   \<and> guard_call_fails failing_guard_services (JStr ''hi'') (v1_guard_api_key demo_config)
         (v1_guard_url_base demo_config) (v1_guard_detailed demo_config)
   \<and> take 2 (snd (chat demo_config failing_guard_services [\<lparr>role = ''user'', content = ''hi''\<rparr>]))
       = [GuardCall (JStr ''hi''),
          OllamaCall ''http://ollama:11434/api/chat''
            (ollama_payload ''llama3.2'' [\<lparr>role = ''user'', content = ''hi''\<rparr>])]"
proof -
  let ?msgs = "[\<lparr>role = ''user'', content = ''hi''\<rparr>]"
  have h1: "ollama_base_url demo_config \<noteq> []" by code_simp
  have h2: "ollama_model demo_config \<noteq> []" by code_simp
  have h3: "v1_guard_enabled demo_config" by code_simp
  have h4: "v1_guard_api_key demo_config \<noteq> []" by code_simp
  have h5: "enforce_side demo_config = ''user'' \<or> enforce_side demo_config = ''both''"
    by code_simp
  have h5': "enforce_side demo_config = ''both''" by code_simp
  have l: "last_user ?msgs = ''hi''" by code_simp
  have h6: "last_user ?msgs \<noteq> []" unfolding l by simp
  have u: "ollama_base_url demo_config = ''http://ollama:11434''" by code_simp
  have m: "ollama_model demo_config = ''llama3.2''" by code_simp
  have v: "apply_guardrails flagging_services (JStr ''hi'') (v1_guard_api_key demo_config)
             (v1_guard_url_base demo_config) (v1_guard_detailed demo_config)
           = [(''decision'', JStr ''BLOCK''), (''is_malicious'', JBool True),
              (''allowed'', JBool False)]"
    by code_simp
  have mal: "is_malicious [(''decision'', JStr ''BLOCK''), (''is_malicious'', JBool True),
              (''allowed'', JBool False)]"
    by code_simp
  have f: "guard_call_fails failing_guard_services (JStr ''hi'') (v1_guard_api_key demo_config)
         (v1_guard_url_base demo_config) (v1_guard_detailed demo_config)"
    by code_simp
  from chat_user_side_block [OF h1 h2 h3 h4 h5 h6, of flagging_services]
  have A: "chat demo_config flagging_services ?msgs
       = (Inr \<lparr> message = assistant_msg USER_BLOCKED,
                guard = Some [(''decision'', JStr ''BLOCK''), (''is_malicious'', JBool True),
                              (''allowed'', JBool False)] \<rparr>,
          [GuardCall (JStr ''hi'')])"
    unfolding l v using mal by simp
  from chat_user_side_block [OF h1 h2 h3 h4 h5 h6, of failing_guard_services]
  have B: "take 2 (snd (chat demo_config failing_guard_services ?msgs))
       = [GuardCall (JStr ''hi''),
          OllamaCall ''http://ollama:11434/api/chat'' (ollama_payload ''llama3.2'' ?msgs)]"
    unfolding l u m using f by auto
  show ?thesis using h1 h2 h3 h4 h5' l v mal f A B by simp
qed

text \<open>
  C1 as stated fails: the Guard is enabled and keyed, the enforcement side is \<open>user\<close>,
  the most recent user message is the empty string, and the Guard verdict on it is
  malicious; the handler does not ask the Guard (the condition of the user-side check
  ends with \<open>and last_user\<close>), calls the model server and returns its reply with no
  verdict.
\<close>

theorem chat_empty_user_message_counterexample:
  "v1_guard_enabled (demo_config\<lparr>enforce_side := ''user''\<rparr>)
   \<and> v1_guard_api_key (demo_config\<lparr>enforce_side := ''user''\<rparr>) \<noteq> []
   \<and> enforce_side (demo_config\<lparr>enforce_side := ''user''\<rparr>) = ''user''
   \<and> last_user [\<lparr>role = ''user'', content = []\<rparr>] = []
   \<and> is_malicious (apply_guardrails flagging_services
         (JStr (last_user [\<lparr>role = ''user'', content = []\<rparr>]))
         (v1_guard_api_key (demo_config\<lparr>enforce_side := ''user''\<rparr>))
         (v1_guard_url_base (demo_config\<lparr>enforce_side := ''user''\<rparr>))
         (v1_guard_detailed (demo_config\<lparr>enforce_side := ''user''\<rparr>)))
   \<and> chat (demo_config\<lparr>enforce_side := ''user''\<rparr>) flagging_services
         [\<lparr>role = ''user'', content = []\<rparr>]
       = (Inr \<lparr> message = assistant_msg ''Hello!'', guard = None \<rparr>,
          [OllamaCall ''http://ollama:11434/api/chat''
             (ollama_payload ''llama3.2'' [\<lparr>role = ''user'', content = []\<rparr>])])"
  by code_simp


lemma last_user_most_recent:
  "last_user msgs
     = (case filter (\<lambda>m. role m = ''user'') msgs of [] \<Rightarrow> [] | u # us \<Rightarrow> content (last (u # us)))"
proof (cases "filter (\<lambda>m. role m = ''user'') msgs")
  case Nil
  then have "filter (\<lambda>m. role m = ''user'') (rev msgs) = []"
    by (simp add: rev_filter [symmetric])
  then show ?thesis using Nil by (simp add: last_user_def)
next
  case (Cons u us)
  then have r: "filter (\<lambda>m. role m = ''user'') (rev msgs) = rev us @ [u]"
    by (simp add: rev_filter [symmetric])
  show ?thesis
  proof (cases "rev us")
    case Nil
    then show ?thesis using r Cons by (simp add: last_user_def)
  next
    case (Cons x xs)
    then have "last us = x" by (metis last_rev list.sel(1) rev_rev_ident rev.simps(1) list.distinct(1))
    moreover have "us \<noteq> []" using Cons by auto
    ultimately show ?thesis using r Cons \<open>filter (\<lambda>m. role m = ''user'') msgs = u # us\<close>
      by (simp add: last_user_def)
  qed
qed

text \<open>
  C9, as the code has it.  In a chat request that passes the validation of the handler,
  where the Guard is enabled and keyed and the enforcement side is \<open>user\<close> or \<open>both\<close>:
  when the most recent user-role message is non-empty, the first call of the request is
  the Guard check of that message; when it is empty (no user-role message, or one with
  empty content), the Guard is not asked about it and the first call is the call of the
  model server.  The most recent user-role message is the content of the last message
  with role \<open>user\<close>, and the empty string when there is none.
\<close>

theorem chat_user_side_guard_invocation:
  assumes "ollama_base_url cfg \<noteq> []" and "ollama_model cfg \<noteq> []" and "msgs \<noteq> []"
    and "v1_guard_enabled cfg" and "v1_guard_api_key cfg \<noteq> []"
    and "enforce_side cfg = ''user'' \<or> enforce_side cfg = ''both''"
  shows "(\<exists>rest. snd (chat cfg sv msgs)
           = (if last_user msgs \<noteq> [] then GuardCall (JStr (last_user msgs))
              else OllamaCall (ollama_base_url cfg @ ''/api/chat'')
                     (ollama_payload (ollama_model cfg) msgs)) # rest)
       \<and> last_user msgs
           = (case filter (\<lambda>m. role m = ''user'') msgs of
                [] \<Rightarrow> [] | u # us \<Rightarrow> content (last (u # us)))"
proof -
  let ?V = "apply_guardrails sv (JStr (last_user msgs)) (v1_guard_api_key cfg)
              (v1_guard_url_base cfg) (v1_guard_detailed cfg)"
  let ?oc = "OllamaCall (ollama_base_url cfg @ ''/api/chat'')
                     (ollama_payload (ollama_model cfg) msgs)"
  note unf = chat_unfold [OF assms(1,2,3), of sv]
  have "\<exists>rest. snd (chat cfg sv msgs)
           = (if last_user msgs \<noteq> [] then GuardCall (JStr (last_user msgs)) else ?oc) # rest"
  proof (cases "last_user msgs \<noteq> []")
    case True
    then have uc: "user_checked cfg msgs" using assms by (simp add: user_checked_def)
    show ?thesis
    proof (cases "is_malicious ?V")
      case mal: True
      have "snd (chat cfg sv msgs) = GuardCall (JStr (last_user msgs)) # []"
        using uc mal unf by simp
      then show ?thesis using True by simp
    next
      case nm: False
      have c: "chat cfg sv msgs
                 = chat_ollama cfg sv msgs (Some ?V) [GuardCall (JStr (last_user msgs))]"
        using uc nm unf by simp
      obtain rest where "snd (chat_ollama cfg sv msgs (Some ?V) [GuardCall (JStr (last_user msgs))])
            = [GuardCall (JStr (last_user msgs))] @ ?oc # rest"
        using snd_chat_ollama [of cfg sv msgs "Some ?V" "[GuardCall (JStr (last_user msgs))]"]
        by (elim exE conjE)
      then have "snd (chat cfg sv msgs) = GuardCall (JStr (last_user msgs)) # (?oc # rest)"
        using c by simp
      then show ?thesis using True by simp
    qed
  next
    case False
    then have "\<not> user_checked cfg msgs" by (simp add: user_checked_def)
    then have c: "chat cfg sv msgs = chat_ollama cfg sv msgs None []"
      using unf by simp
    obtain rest where "snd (chat_ollama cfg sv msgs None []) = [] @ ?oc # rest"
      using snd_chat_ollama [of cfg sv msgs None "[]"] by (elim exE conjE)
    then have "snd (chat cfg sv msgs) = ?oc # rest" using c by simp
    then show ?thesis using False by simp
  qed
  then show ?thesis using last_user_most_recent [of msgs] by (rule conjI)
qed

text \<open>
  C9 as amended, at a conversation with two user messages: the Guard is asked about the
  second one first.
\<close>

theorem chat_user_side_guard_invocation_witness:
  "ollama_base_url demo_config \<noteq> [] \<and> ollama_model demo_config \<noteq> []
   \<and> [\<lparr>role = ''user'', content = ''first''\<rparr>, \<lparr>role = ''assistant'', content = ''Hello!''\<rparr>,
       \<lparr>role = ''user'', content = ''second''\<rparr>, \<lparr>role = ''system'', content = ''note''\<rparr>] \<noteq> []
   \<and> v1_guard_enabled demo_config \<and> v1_guard_api_key demo_config \<noteq> []
   \<and> enforce_side demo_config = ''both''
   \<and> last_user [\<lparr>role = ''user'', content = ''first''\<rparr>, \<lparr>role = ''assistant'', content = ''Hello!''\<rparr>,
       \<lparr>role = ''user'', content = ''second''\<rparr>, \<lparr>role = ''system'', content = ''note''\<rparr>]
       = ''second''
   \<and> hd (snd (chat demo_config failing_guard_services
         [\<lparr>role = ''user'', content = ''first''\<rparr>, \<lparr>role = ''assistant'', content = ''Hello!''\<rparr>,
          \<lparr>role = ''user'', content = ''second''\<rparr>, \<lparr>role = ''system'', content = ''note''\<rparr>]))
       = GuardCall (JStr ''second'')"
proof -
  let ?msgs = "[\<lparr>role = ''user'', content = ''first''\<rparr>, \<lparr>role = ''assistant'', content = ''Hello!''\<rparr>,
       \<lparr>role = ''user'', content = ''second''\<rparr>, \<lparr>role = ''system'', content = ''note''\<rparr>]"
  have h1: "ollama_base_url demo_config \<noteq> []" by code_simp
  have h2: "ollama_model demo_config \<noteq> []" by code_simp
  have h3: "?msgs \<noteq> []" by simp
  have h4: "v1_guard_enabled demo_config" by code_simp
  have h5: "v1_guard_api_key demo_config \<noteq> []" by code_simp
  have h6: "enforce_side demo_config = ''user'' \<or> enforce_side demo_config = ''both''"
    by code_simp
  have h6': "enforce_side demo_config = ''both''" by code_simp
  have l: "last_user ?msgs = ''second''" by code_simp
  from chat_user_side_guard_invocation [OF h1 h2 h3 h4 h5 h6, of failing_guard_services]
  obtain rest where "snd (chat demo_config failing_guard_services ?msgs)
      = (if last_user ?msgs \<noteq> [] then GuardCall (JStr (last_user ?msgs))
              else OllamaCall (ollama_base_url demo_config @ ''/api/chat'')
                     (ollama_payload (ollama_model demo_config) ?msgs)) # rest"
    by (elim exE conjE)
  then have "hd (snd (chat demo_config failing_guard_services ?msgs)) = GuardCall (JStr ''second'')"
    unfolding l by simp
  then show ?thesis using h1 h2 h3 h4 h5 h6' l by simp
qed

text \<open>
  C9 as stated fails: with the Guard enabled and keyed, the enforcement side \<open>user\<close> and
  a conversation with no user-role message, the Content Guard is not invoked on the empty
  string; the only call of the request is the call of the model server.
\<close>

theorem chat_no_user_message_counterexample:
  "ollama_base_url (demo_config\<lparr>enforce_side := ''user''\<rparr>) \<noteq> []
   \<and> ollama_model (demo_config\<lparr>enforce_side := ''user''\<rparr>) \<noteq> []
   \<and> v1_guard_enabled (demo_config\<lparr>enforce_side := ''user''\<rparr>)
   \<and> v1_guard_api_key (demo_config\<lparr>enforce_side := ''user''\<rparr>) \<noteq> []
   \<and> enforce_side (demo_config\<lparr>enforce_side := ''user''\<rparr>) = ''user''
   \<and> filter (\<lambda>m. role m = ''user'') [\<lparr>role = ''system'', content = ''Be brief.''\<rparr>] = []
   \<and> last_user [\<lparr>role = ''system'', content = ''Be brief.''\<rparr>] = []
   \<and> snd (chat (demo_config\<lparr>enforce_side := ''user''\<rparr>) flagging_services
            [\<lparr>role = ''system'', content = ''Be brief.''\<rparr>])
       = [OllamaCall ''http://ollama:11434/api/chat''
            (ollama_payload ''llama3.2'' [\<lparr>role = ''system'', content = ''Be brief.''\<rparr>])]
   \<and> GuardCall (JStr []) \<notin> set (snd (chat (demo_config\<lparr>enforce_side := ''user''\<rparr>)
         flagging_services [\<lparr>role = ''system'', content = ''Be brief.''\<rparr>]))"
  by code_simp

section \<open>Properties of the file mediation\<close>

lemma finally_unlink_removes:
  "fs tmp_path \<noteq> None \<Longrightarrow>
   finally_unlink tmp_path fs outcome = (outcome, fs(tmp_path := None))"
  by (auto simp add: finally_unlink_def os_unlink_def)

text \<open>
  Once the temporary file is created, the upload read and the bytes written, the
  \<open>finally\<close> clause removes the file whatever the body of the \<open>try\<close> block comes to: a
  response, an error result of the scanner, or an exception.
\<close>

lemma scan_uploaded_file_cleans_up:
  assumes "named_temporary_file rt
             (''_'' @ (case filename file of None \<Rightarrow> ''None'' | Some n \<Rightarrow> n)) = Some tmp_path"
    and "read_result file = Some bytes"
    and "tmp_write rt tmp_path bytes = Written"
  shows "scan_uploaded_file cfg rt file fs
         = (scan_uploaded_body cfg rt file tmp_path (fs(tmp_path \<mapsto> bytes)),
            fs(tmp_path := None))"
  using assms by (simp add: scan_uploaded_file_def finally_unlink_removes)

text \<open>
  Before the \<open>try\<close> block nothing removes the file: when the write raises, the request
  ends with the exception and the file is still there, with what was written of it.
\<close>

lemma scan_uploaded_file_write_raises:
  assumes "named_temporary_file rt
             (''_'' @ (case filename file of None \<Rightarrow> ''None'' | Some n \<Rightarrow> n)) = Some tmp_path"
    and "read_result file = Some bytes"
    and "tmp_write rt tmp_path bytes = WriteRaised partial"
  shows "scan_uploaded_file cfg rt file fs
         = (Inl (Unhandled ''OSError''), fs(tmp_path \<mapsto> partial))"
  using assms by (simp add: scan_uploaded_file_def)

lemma in_and_get_dict:
  "in_and_get k (JObj d) = Inr (k \<in> fst ` set d \<and> py_truthy (dict_get d k))"
  by (cases "k \<in> fst ` set d") (simp_all add: in_and_get_def)

text \<open>
  The two derivations of \<open>malicious\<close> on a scanner result that is a JSON object.
\<close>

lemma upload_malicious_dict:
  "upload_malicious (JObj d)
     = Inr ((''scanResult'' \<in> fst ` set d \<and> py_truthy (dict_get d ''scanResult''))
          \<or> (''foundMalwares'' \<in> fst ` set d \<and> py_truthy (dict_get d ''foundMalwares'')))"
  by (auto simp add: upload_malicious_def in_and_get_dict split: bool.split)

lemma sample_malicious_dict:
  "sample_malicious (JObj d)
     = Inr (''scanResult'' \<in> fst ` set d \<and> py_truthy (dict_get d ''scanResult''))"
  by (auto simp add: sample_malicious_def in_and_get_dict)

text \<open>
  C5.  The claim is that the temporary file is gone after every upload request, also one
  that ends with an exception.  Here \<open>tmp.write\<close> raises \<open>OSError\<close> (the temporary
  directory is full): the exception leaves the \<open>with\<close> block, which is before the
  \<open>try\<close>, so the \<open>finally\<close> clause never runs and the file stays.
\<close>

theorem upload_write_failure_leaves_temp_file:
  "fst (scan_uploaded_file scan_config full_disk_runtime demo_upload Map.empty)
     = Inl (Unhandled ''OSError'')
   \<and> snd (scan_uploaded_file scan_config full_disk_runtime demo_upload Map.empty)
       ''/tmp/tmpab12cd_report.pdf'' = Some []"
  by code_simp

text \<open>
  C6.  The claim is that the fixed-sample handlers derive \<open>malicious\<close> by the rule of
  the upload handler.  On a scanner result with a falsy \<open>scanResult\<close> and a non-empty
  \<open>foundMalwares\<close> list the upload handler reports \<open>malicious\<close> true, and \<open>test_eicar\<close>
  and \<open>test_hello\<close> report false: they never look at \<open>foundMalwares\<close>.
\<close>

theorem eicar_test_ignores_found_malwares:
  "fst (scan_uploaded_file scan_config demo_runtime demo_upload Map.empty)
     = Inr \<lparr> sr_filename = JStr ''report.pdf'', sr_v1fs_result = found_only_result,
             sr_guard_result = JNull, sr_malicious = True \<rparr>
   \<and> fst (test_eicar scan_config demo_runtime Map.empty)
     = Inr \<lparr> sr_filename = JStr ''eicar.txt'', sr_v1fs_result = found_only_result,
             sr_guard_result = JNull, sr_malicious = False \<rparr>
   \<and> fst (test_hello scan_config demo_runtime Map.empty)
     = Inr \<lparr> sr_filename = JStr ''hello.txt'', sr_v1fs_result = found_only_result,
             sr_guard_result = JNull, sr_malicious = False \<rparr>"
  by code_simp

end
